theory Spec2Isabelle
  imports Complex_Main
begin

section \<open>Numbers\<close>

text \<open>
  The source computes with JavaScript numbers. The model uses exact reals with \<open>NaN\<close>
  adjoined: arithmetic on \<open>NaN\<close> gives \<open>NaN\<close> and every comparison with \<open>NaN\<close> is
  false. \<open>undefined\<close> turns into \<open>NaN\<close> as soon as it enters arithmetic
  (\<open>undefined + 1\<close>, \<open>Math.ceil(undefined)\<close>), which is the only way the code below
  uses it. Rounding of doubles and the infinities are not part of the model.
\<close>

datatype jsnum = Num real | NaN

fun js_add :: "jsnum \<Rightarrow> jsnum \<Rightarrow> jsnum" where
  "js_add (Num a) (Num b) = Num (a + b)"
| "js_add _ _ = NaN"

fun js_sub :: "jsnum \<Rightarrow> jsnum \<Rightarrow> jsnum" where
  "js_sub (Num a) (Num b) = Num (a - b)"
| "js_sub _ _ = NaN"

fun js_half :: "jsnum \<Rightarrow> jsnum" where
  "js_half (Num a) = Num (a / 2)"
| "js_half NaN = NaN"

fun js_ceil :: "jsnum \<Rightarrow> jsnum" where
  "js_ceil (Num a) = Num (of_int \<lceil>a\<rceil>)"
| "js_ceil NaN = NaN"

text \<open>
  Modelled from the spec: \<open>max\<close> of d3-array, which is imported and not part of this
  repository. It returns the largest of the values, skips \<open>NaN\<close> and \<open>undefined\<close>, and
  returns \<open>undefined\<close> when nothing is left; both callers put the result straight into
  arithmetic, so \<open>undefined\<close> is \<open>NaN\<close> here.
\<close>

fun d3max :: "jsnum list \<Rightarrow> jsnum" where
  "d3max [] = NaN"
| "d3max (NaN # xs) = d3max xs"
| "d3max (Num a # xs) = (case d3max xs of NaN \<Rightarrow> Num a | Num b \<Rightarrow> Num (max a b))"

section \<open>Data model\<close>

text \<open>
  The exceptions. Every exception the source can raise is a TypeError of the runtime:
  calling what is no function, reading a property of \<open>undefined\<close>, calling a class
  constructor without \<open>new\<close>, or handing a built-in method a value where it expects a
  function. \<open>ConfigurationError\<close> is the kind the specification names for a wrong
  configuration; the source has no such class and no line of it raises one.
\<close>

datatype type_error =
  Not_a_function | Property_of_undefined | Constructor_without_new | Expecting_function

datatype error = TypeError type_error | ConfigurationError

text \<open>
  What a failed \<open>render\<close> leaves to be seen: the exception, and the calls of
  \<open>measureText\<close> (tick value and index) that were made before it was raised.
\<close>

record failure =
  f_error :: error
  f_measured :: "(real \<times> nat) list"

text \<open>
  The name of the scale kind is taken apart character by character, so it is a
  JavaScript string as such: a list of UTF-16 code units. The other strings of the model
  are only compared with ASCII constants or handed on, and are of type \<open>string\<close>.
\<close>

type_synonym jsstring = "nat list"

definition str :: "string \<Rightarrow> jsstring" where
  "str cs = map of_char cs"

text \<open>
  \<open>this._position\<close>: the role names \<open>width\<close>, \<open>height\<close>, \<open>x\<close>, \<open>y\<close> mapped to the
  property names they stand for under the current orientation.
\<close>

datatype dim = Width | Height

datatype axis = X | Y

record position =
  pos_width :: dim
  pos_height :: dim
  pos_x :: axis
  pos_y :: axis

record bounds =
  b_width :: jsnum
  b_height :: jsnum
  b_x :: jsnum
  b_y :: jsnum

fun get_dim :: "bounds \<Rightarrow> dim \<Rightarrow> jsnum" where
  "get_dim b Width = b_width b"
| "get_dim b Height = b_height b"

fun get_axis :: "bounds \<Rightarrow> axis \<Rightarrow> jsnum" where
  "get_axis b X = b_x b"
| "get_axis b Y = b_y b"

fun put_dim :: "dim \<Rightarrow> jsnum \<Rightarrow> bounds \<Rightarrow> bounds" where
  "put_dim Width v b = b\<lparr>b_width := v\<rparr>"
| "put_dim Height v b = b\<lparr>b_height := v\<rparr>"

fun put_axis :: "axis \<Rightarrow> jsnum \<Rightarrow> bounds \<Rightarrow> bounds" where
  "put_axis X v b = b\<lparr>b_x := v\<rparr>"
| "put_axis Y v b = b\<lparr>b_y := v\<rparr>"

text \<open>
  An object literal before its keys are assigned: a key that is never assigned reads as
  \<open>undefined\<close>. \<open>orient\<close> always installs four distinct roles, so every key of the
  outer bounds is assigned by \<open>render\<close>.
\<close>

definition no_bounds :: bounds where
  "no_bounds = \<lparr>b_width = NaN, b_height = NaN, b_x = NaN, b_y = NaN\<rparr>"

text \<open>
  \<open>this._textBoxConfig\<close>: the font accessors are called with the tick value and its
  index.
\<close>

record text_box_config =
  fontFamily :: "real \<Rightarrow> nat \<Rightarrow> string"
  fontResize :: bool
  fontSize :: "real \<Rightarrow> nat \<Rightarrow> real"

text \<open>
  The scale objects come from d3-scale, which is imported and not part of this
  repository, so a scale kind is a parameter of the model: its forward map, given the
  domain, the range and the argument (\<open>None\<close> is \<open>undefined\<close>, what \<open>values[i + 1]\<close>
  reads past the end of the array), and its tick generator.
\<close>

record scale_kind =
  forward :: "real \<times> real \<Rightarrow> jsnum \<times> jsnum \<Rightarrow> real option \<Rightarrow> jsnum"
  gen_ticks :: "real \<times> real \<Rightarrow> real list"

record d3scale =
  sc_kind :: scale_kind
  sc_domain :: "real \<times> real"
  sc_range :: "jsnum \<times> jsnum"

definition scale_apply :: "d3scale \<Rightarrow> real option \<Rightarrow> jsnum" where
  "scale_apply sc v = forward (sc_kind sc) (sc_domain sc) (sc_range sc) v"

text \<open>
  What the runtime and the imported modules provide: \<open>toUpperCase\<close> of strings (the case
  mapping of Unicode, which may change the length), the exports of d3-scale by name
  (\<open>None\<close> where the name is no callable export), and \<open>textWrap\<close> and \<open>textWidth\<close> of
  d3plus-text. \<open>textWrap\<close> takes the font family, the font size, the line height, the
  width, the height and the tick value and returns the lines; \<open>textWidth\<close> takes a line,
  the font family and the font size.
\<close>

record env =
  toUpperCase :: "jsstring \<Rightarrow> jsstring"
  scales :: "jsstring \<Rightarrow> scale_kind option"
  textWrap :: "string \<Rightarrow> real \<Rightarrow> real \<Rightarrow> real \<Rightarrow> real \<Rightarrow> real \<Rightarrow> string list"
  textWidth :: "string \<Rightarrow> string \<Rightarrow> real \<Rightarrow> real"

text \<open>
  The instance. \<open>_select\<close>, \<open>_ticks\<close>, \<open>_d3Scale\<close> and \<open>_lastScale\<close> are \<open>undefined\<close>
  until they are assigned. \<open>_lineHeight\<close> is only ever the closure that \<open>render\<close>
  installs, so it is the function \<open>lineHeight\<close> below and not a field.
\<close>

record legend =
  align :: string
  domain :: "real \<times> real"
  duration :: real
  height :: real
  orient :: string
  position :: position
  outerBounds :: bounds
  padding :: real
  scale :: jsstring
  strokeWidth :: real
  textBoxConfig :: text_box_config
  tickSize :: real
  uuid :: nat
  width :: real
  ticks :: "real list option"
  select :: "string option"
  d3Scale :: "d3scale option"
  lastScale :: "d3scale option"

text \<open>\<open>this[`_${width}`]\<close>: the configured size a role stands for.\<close>

fun cfg_dim :: "legend \<Rightarrow> dim \<Rightarrow> real" where
  "cfg_dim s Width = width s"
| "cfg_dim s Height = height s"

section \<open>Accessors\<close>

definition orient_set :: "string \<Rightarrow> legend \<Rightarrow> legend" where
  "orient_set v s =
     (let horizontal = (v \<in> set [''top'', ''bottom''])
      in s\<lparr>position := \<lparr>pos_width = (if horizontal then Width else Height),
                         pos_height = (if horizontal then Height else Width),
                         pos_x = (if horizontal then X else Y),
                         pos_y = (if horizontal then Y else X)\<rparr>,
           orient := v\<rparr>)"

text \<open>
  The constructor. The default font family accessor comes from \<open>textBox()\<close> and the
  identifier from the clock, so both are arguments. \<open>orient("bottom")\<close> assigns
  \<open>_orient\<close> and \<open>_position\<close>, which no other line of the constructor touches.
\<close>

definition constructor :: "(real \<Rightarrow> nat \<Rightarrow> string) \<Rightarrow> nat \<Rightarrow> legend" where
  "constructor family now =
     orient_set ''bottom''
       \<lparr>align = ''middle'', domain = (0, 10), duration = 600, height = 100,
        orient = [], position = \<lparr>pos_width = Width, pos_height = Height, pos_x = X, pos_y = Y\<rparr>,
        outerBounds = \<lparr>b_width = Num 0, b_height = Num 0, b_x = Num 0, b_y = Num 0\<rparr>,
        padding = 5, scale = str ''linear'', strokeWidth = 1,
        textBoxConfig = \<lparr>fontFamily = family, fontResize = False,
                         fontSize = (\<lambda>d i. 10)\<rparr>,
        tickSize = 5, uuid = now, width = 400, ticks = None, select = None,
        d3Scale = None, lastScale = None\<rparr>"

section \<open>The layout pass of render\<close>

text \<open>\<open>this._lineHeight\<close> as \<open>render\<close> installs it.\<close>

definition lineHeight :: "legend \<Rightarrow> real \<Rightarrow> nat \<Rightarrow> real" where
  "lineHeight s d i = fontSize (textBoxConfig s) d i * (11 / 10)"

text \<open>
  The name looked up in d3-scale: \<open>scale\<close>, then \<open>charAt(0)\<close> in upper case, then
  \<open>slice(1)\<close>. \<open>charAt(0)\<close> of the empty string is the empty string.
\<close>

fun export_name :: "env \<Rightarrow> jsstring \<Rightarrow> jsstring" where
  "export_name e [] = str ''scale''"
| "export_name e (c # cs) = str ''scale'' @ toUpperCase e [c] @ cs"

text \<open>
  The loop over the ticks that finds the widest gap. At the last index
  \<open>values[i + 1]\<close> is \<open>undefined\<close>. \<open>s > space\<close> is false when \<open>s\<close> is \<open>NaN\<close>,
  so \<open>space\<close> stays a number.
\<close>

fun max_gap :: "d3scale \<Rightarrow> real list \<Rightarrow> real \<Rightarrow> real" where
  "max_gap sc [] space = space"
| "max_gap sc (v # vs) space =
     (let s = js_sub (scale_apply sc (case vs of [] \<Rightarrow> None | w # _ \<Rightarrow> Some w))
                     (scale_apply sc (Some v))
      in max_gap sc vs (case s of Num g \<Rightarrow> (if g > space then g else space)
                                | NaN \<Rightarrow> space))"

record text_data =
  td_lines :: "string list"
  td_width :: jsnum
  td_height :: jsnum

fun td_get :: "text_data \<Rightarrow> dim \<Rightarrow> jsnum" where
  "td_get t Width = td_width t"
| "td_get t Height = td_height t"

definition measureText :: "env \<Rightarrow> legend \<Rightarrow> real \<Rightarrow> real \<Rightarrow> nat \<Rightarrow> text_data" where
  "measureText e s space d i =
     (let f = fontFamily (textBoxConfig s) d i;
          lh = lineHeight s d i;
          sz = fontSize (textBoxConfig s) d i;
          res = textWrap e f sz lh space (height s - tickSize s - padding s) d
      in \<lparr>td_lines = res,
          td_width = js_ceil (d3max (map (\<lambda>t. Num (textWidth e t f sz)) res)),
          td_height = js_ceil (Num (real (length res) * (lh + 1)))\<rparr>)"

text \<open>
  What the layout pass computes: the ticks, the scale as first ranged, the spacing budget,
  the measured labels, the scale with its final range and the outer bounds.
\<close>

record layout =
  l_ticks :: "real list"
  l_scale0 :: d3scale
  l_space :: real
  l_textData :: "text_data list"
  l_scale :: d3scale
  l_bounds :: bounds

text \<open>\<open>this[`_${width}`] - p * 2\<close>: the size along the scale before the labels are measured.\<close>

definition usable_size :: "legend \<Rightarrow> real" where
  "usable_size s = cfg_dim s (pos_width (position s)) - padding s * 2"

text \<open>\<open>this._ticks || this._d3Scale.ticks()\<close>; an empty array counts as given.\<close>

definition tick_values :: "scale_kind \<Rightarrow> legend \<Rightarrow> real list" where
  "tick_values k s = (case ticks s of Some ts \<Rightarrow> ts | None \<Rightarrow> gen_ticks k (domain s))"

text \<open>
  The layout pass: lines 106 to 156 of \<open>render\<close>. It can fail in two places: calling the
  export of d3-scale when there is none, before anything else is done, and reading
  \<open>textData[0][width]\<close> when there is no tick.
\<close>

definition layout_pass :: "env \<Rightarrow> legend \<Rightarrow> failure + layout" where
  "layout_pass e s =
     (let pos = position s;
          p = padding s;
          size = usable_size s
      in case scales e (export_name e (scale s)) of
           None \<Rightarrow> Inl \<lparr>f_error = TypeError Not_a_function, f_measured = []\<rparr>
         | Some k \<Rightarrow>
             (let sc = \<lparr>sc_kind = k, sc_domain = domain s, sc_range = (Num p, Num (p + size))\<rparr>;
                  vals = tick_values k s;
                  space = max_gap sc vals 0 - p;
                  textData = map (\<lambda>(i, d). measureText e s space d i) (enumerate 0 vals)
              in case textData of
                   [] \<Rightarrow> Inl \<lparr>f_error = TypeError Property_of_undefined,
                               f_measured = map (\<lambda>(i, d). (d, i)) (enumerate 0 vals)\<rparr>
                 | t0 # _ \<Rightarrow>
                     (let firstWidth = td_get t0 (pos_width pos);
                          lastWidth = td_get (last textData) (pos_width pos);
                          size' = js_sub (Num size) (js_add (js_half firstWidth) (js_half lastWidth));
                          sc' = sc\<lparr>sc_range := (js_add (Num p) (js_half firstWidth),
                                                js_add (js_add (Num p) (js_half firstWidth)) size')\<rparr>;
                          ob = put_axis (pos_x pos) (fst (sc_range sc'))
                                 (put_dim (pos_width pos) size'
                                    (put_dim (pos_height pos)
                                       (js_add (js_add (Num (tickSize s))
                                                  (d3max (map (\<lambda>t. td_get t (pos_height pos)) textData)))
                                               (Num (p * 2)))
                                       no_bounds));
                          ob' = put_axis (pos_y pos)
                                  (if align s = ''start'' then Num (padding s)
                                   else if align s = ''end''
                                     then js_sub (Num (cfg_dim s (pos_height pos))) (get_dim ob (pos_height pos))
                                   else js_sub (Num (cfg_dim s (pos_height pos) / 2))
                                               (js_half (get_dim ob (pos_height pos))))
                                  ob
                      in Inr \<lparr>l_ticks = vals, l_scale0 = sc, l_space = space,
                              l_textData = textData, l_scale = sc', l_bounds = ob'\<rparr>)))"

text \<open>
  \<open>render\<close>: the container is created when none was selected, the layout pass runs,
  and its scale and outer bounds are stored. An exception ends the call. Drawing (the
  selection joins and transitions of d3) is not modelled; the positions it draws with
  are the three functions that follow.
\<close>

definition render :: "env \<Rightarrow> legend \<Rightarrow> failure + legend" where
  "render e s0 =
     (let s = (if select s0 = None then s0\<lparr>select := Some ''svg''\<rparr> else s0)
      in case layout_pass e s of
           Inl err \<Rightarrow> Inl err
         | Inr l \<Rightarrow> Inr (s\<lparr>d3Scale := Some (l_scale l), outerBounds := l_bounds l,
                            lastScale := Some (l_scale l)\<rparr>))"

section \<open>Positions of the bar, the clip rectangle and the ticks\<close>

fun dim_name :: "dim \<Rightarrow> string" where
  "dim_name Width = ''width''"
| "dim_name Height = ''height''"

fun axis_name :: "axis \<Rightarrow> string" where
  "axis_name X = ''x''"
| "axis_name Y = ''y''"

text \<open>
  The local \<open>position\<close> of \<open>_barPosition\<close> and \<open>_tickPosition\<close>: the edge of the outer
  box the bar lies on.
\<close>

definition edge_position :: "legend \<Rightarrow> jsnum" where
  "edge_position s =
     (if orient s \<in> set [''top'', ''left'']
      then js_add (get_axis (outerBounds s) (pos_y (position s)))
                  (get_dim (outerBounds s) (pos_height (position s)))
      else get_axis (outerBounds s) (pos_y (position s)))"

text \<open>
  Each function returns the attributes it sets, in order. Before a render assigned
  \<open>this._d3Scale\<close>, reading its \<open>domain\<close> or calling it is a TypeError.
\<close>

definition barPosition :: "legend \<Rightarrow> error + (string \<times> jsnum) list" where
  "barPosition s =
     (case d3Scale s of
        None \<Rightarrow> Inl (TypeError Property_of_undefined)
      | Some sc \<Rightarrow>
          Inr [(axis_name (pos_x (position s)) @ ''1'', scale_apply sc (Some (fst (sc_domain sc)))),
               (axis_name (pos_x (position s)) @ ''2'', scale_apply sc (Some (snd (sc_domain sc)))),
               (axis_name (pos_y (position s)) @ ''1'', edge_position s),
               (axis_name (pos_y (position s)) @ ''2'', edge_position s)])"

definition clipPosition :: "legend \<Rightarrow> error + (string \<times> jsnum) list" where
  "clipPosition s =
     (case d3Scale s of
        None \<Rightarrow> Inl (TypeError Property_of_undefined)
      | Some sc \<Rightarrow>
          (let p = strokeWidth s;
               sz = js_sub (scale_apply sc (Some (snd (sc_domain sc))))
                           (scale_apply sc (Some (fst (sc_domain sc))));
               pos = (if orient s \<in> set [''top'', ''left'']
                      then js_sub (js_add (get_axis (outerBounds s) (pos_y (position s)))
                                          (get_dim (outerBounds s) (pos_height (position s))))
                                  (Num (tickSize s))
                      else get_axis (outerBounds s) (pos_y (position s)))
           in Inr [(axis_name (pos_x (position s)),
                      js_sub (scale_apply sc (Some (fst (sc_domain sc)))) (Num p)),
                   (axis_name (pos_y (position s)), pos),
                   (dim_name (pos_width (position s)), js_add sz (Num (p * 2))),
                   (dim_name (pos_height (position s)), Num (tickSize s + p))]))"

text \<open>The signed \<open>size\<close> of \<open>_tickPosition\<close>.\<close>

definition tick_offset :: "legend \<Rightarrow> real" where
  "tick_offset s = (if orient s \<in> set [''top'', ''left''] then - tickSize s else tickSize s)"

text \<open>The attributes of the tick of the value \<open>d\<close>; \<open>lst\<close> is the argument \<open>last\<close>.\<close>

definition tickPosition :: "legend \<Rightarrow> bool \<Rightarrow> real \<Rightarrow> error + (string \<times> jsnum) list" where
  "tickPosition s lst d =
     (case (if lst then (case lastScale s of Some l \<Rightarrow> Some l | None \<Rightarrow> d3Scale s)
            else d3Scale s) of
        None \<Rightarrow> Inl (TypeError Not_a_function)
      | Some sc \<Rightarrow>
          Inr [(''stroke-width'', Num (strokeWidth s)),
               (axis_name (pos_x (position s)) @ ''1'', scale_apply sc (Some d)),
               (axis_name (pos_x (position s)) @ ''2'', scale_apply sc (Some d)),
               (axis_name (pos_y (position s)) @ ''1'', edge_position s),
               (axis_name (pos_y (position s)) @ ''2'',
                  (if lst then edge_position s
                   else js_add (edge_position s) (Num (tick_offset s))))])"

text \<open>
  The label boxes: what \<open>render\<close> hands to \<open>textBox()\<close> in lines 209 to 229, from the
  ticks and the measured labels of the layout pass and the instance as the layout pass
  left it. \<open>x\<close> and \<open>y\<close> are called for every tick with its index; the model lists their
  results in the order of the ticks. \<open>this._outerBounds.x\<close> and \<open>this._outerBounds.y\<close> are
  read by name here, not through the roles. Calling \<open>this._d3Scale\<close> for a tick before a
  render assigned it is a TypeError.
\<close>

record text_box =
  tb_height :: jsnum
  tb_textAnchor :: string
  tb_verticalAlign :: string
  tb_width :: jsnum
  tb_x :: "jsnum list"
  tb_y :: "jsnum list"

definition labelBox :: "legend \<Rightarrow> layout \<Rightarrow> error + text_box" where
  "labelBox s l =
     (let maxTextHeight = d3max (map td_height (l_textData l));
          maxTextWidth =
            d3max (map (\<lambda>(i, t, d). js_add (td_width t) (Num (fontSize (textBoxConfig s) d i)))
                       (enumerate 0 (zip (l_textData l) (l_ticks l))));
          place = (\<lambda>d. case d3Scale s of Some sc \<Rightarrow> scale_apply sc (Some d) | None \<Rightarrow> NaN)
      in if d3Scale s = None \<and> l_ticks l \<noteq> [] then Inl (TypeError Not_a_function)
         else Inr \<lparr>tb_height = maxTextHeight,
                   tb_textAnchor =
                     (if orient s = ''left'' then ''end''
                      else if orient s = ''right'' then ''start'' else ''middle''),
                   tb_verticalAlign =
                     (if orient s = ''bottom'' then ''top''
                      else if orient s = ''top'' then ''bottom'' else ''middle''),
                   tb_width = maxTextWidth,
                   tb_x = map (\<lambda>(i, d).
                                 if orient s \<in> set [''top'', ''bottom'']
                                 then js_sub (place d) (js_half maxTextWidth)
                                 else if orient s = ''left''
                                   then js_sub (b_x (outerBounds s))
                                               (Num (fontSize (textBoxConfig s) d i / 2))
                                 else js_add (js_add (b_x (outerBounds s)) (Num (tickSize s)))
                                             (Num (padding s)))
                              (enumerate 0 (l_ticks l)),
                   tb_y = map (\<lambda>d.
                                 if orient s \<in> set [''left'', ''right'']
                                 then js_sub (place d) (js_half maxTextHeight)
                                 else if orient s \<in> set [''right'', ''bottom'']
                                   then js_add (js_add (b_y (outerBounds s)) (Num (tickSize s)))
                                               (Num (padding s))
                                 else b_y (outerBounds s))
                              (l_ticks l)\<rparr>)"

section \<open>config\<close>

text \<open>
  \<open>config\<close> looks properties of the instance up by name and calls them, so the model
  lists the names. The own properties that hold data are those the constructor assigns,
  with \<open>_ticks\<close> and \<open>_select\<close> once they are set; the own properties that hold
  functions are \<open>_lineHeight\<close>, \<open>_d3Scale\<close> and \<open>_lastScale\<close>, which a render assigns; the
  class gives every instance its methods; and every object inherits the properties of
  \<open>Object.prototype\<close>, here those of ECMAScript 2015 with its annex B: ten functions, and
  \<open>__proto__\<close>, which holds the prototype object and no function (\<open>constructor\<close> is the
  class's own).
\<close>

definition data_fields :: "legend \<Rightarrow> string list" where
  "data_fields s =
     [''_align'', ''_domain'', ''_duration'', ''_height'', ''_position'', ''_orient'',
      ''_outerBounds'', ''_padding'', ''_scale'', ''_strokeWidth'', ''_textBoxConfig'',
      ''_tickSize'', ''_uuid'', ''_width'']
     @ (if ticks s = None then [] else [''_ticks''])
     @ (if select s = None then [] else [''_select''])"

definition function_fields :: "legend \<Rightarrow> string list" where
  "function_fields s =
     (if d3Scale s = None then [] else [''_lineHeight'', ''_d3Scale''])
     @ (if lastScale s = None then [] else [''_lastScale''])"

definition class_methods :: "string list" where
  "class_methods =
     [''constructor'', ''_barPosition'', ''_clipPosition'', ''_tickPosition'', ''render'',
      ''align'', ''config'', ''domain'', ''height'', ''orient'', ''outerBounds'', ''padding'',
      ''scale'', ''select'', ''textBoxConfig'', ''ticks'', ''tickSize'', ''width'']"

definition object_prototype_functions :: "string list" where
  "object_prototype_functions =
     [''hasOwnProperty'', ''isPrototypeOf'', ''propertyIsEnumerable'', ''toLocaleString'',
      ''toString'', ''valueOf'', ''__defineGetter__'', ''__defineSetter__'',
      ''__lookupGetter__'', ''__lookupSetter__'']"

datatype member = Data | Function

text \<open>\<open>this[k]\<close>; \<open>None\<close> is \<open>undefined\<close>, and \<open>k in this\<close> is \<open>member_of s k \<noteq> None\<close>.\<close>

definition member_of :: "legend \<Rightarrow> string \<Rightarrow> member option" where
  "member_of s k =
     (if k \<in> set (data_fields s) then Some Data
      else if k \<in> set (function_fields s) \<or> k \<in> set class_methods then Some Function
      else if k \<in> set object_prototype_functions then Some Function
      else if k = ''__proto__'' then Some Data
      else None)"

text \<open>
  The values a configuration object holds, as far as the typed fields of the model can
  store them: \<open>undefined\<close>, a number, a string, an array of numbers, and an object with
  some of the keys \<open>fontFamily\<close>, \<open>fontResize\<close> and \<open>fontSize\<close>.
\<close>

datatype jsval =
    VUndefined
  | VNumber real
  | VString string
  | VArray "real list"
  | VTextBox "(real \<Rightarrow> nat \<Rightarrow> string) option" "bool option" "(real \<Rightarrow> nat \<Rightarrow> real) option"

text \<open>
  The eleven accessors called with one argument: each assigns its field and returns the
  instance (\<open>textBoxConfig\<close> assigns the keys its argument has, \<open>select\<close> stores the
  selection of its argument). The source stores whatever it is given; the model has
  typed fields, so an accessor is modelled on the values of its field's type and is
  \<open>None\<close> elsewhere.
\<close>

definition setter :: "string \<Rightarrow> jsval \<Rightarrow> (legend \<Rightarrow> legend) option" where
  "setter k v =
     (if k = ''align'' then (case v of VString a \<Rightarrow> Some (\<lambda>s. s\<lparr>align := a\<rparr>) | _ \<Rightarrow> None)
      else if k = ''domain''
        then (case v of VArray [a, b] \<Rightarrow> Some (\<lambda>s. s\<lparr>domain := (a, b)\<rparr>) | _ \<Rightarrow> None)
      else if k = ''height'' then (case v of VNumber a \<Rightarrow> Some (\<lambda>s. s\<lparr>height := a\<rparr>) | _ \<Rightarrow> None)
      else if k = ''orient'' then (case v of VString a \<Rightarrow> Some (orient_set a) | _ \<Rightarrow> None)
      else if k = ''padding'' then (case v of VNumber a \<Rightarrow> Some (\<lambda>s. s\<lparr>padding := a\<rparr>) | _ \<Rightarrow> None)
      else if k = ''scale'' then (case v of VString a \<Rightarrow> Some (\<lambda>s. s\<lparr>scale := str a\<rparr>) | _ \<Rightarrow> None)
      else if k = ''select'' then (case v of VString a \<Rightarrow> Some (\<lambda>s. s\<lparr>select := Some a\<rparr>) | _ \<Rightarrow> None)
      else if k = ''textBoxConfig''
        then (case v of
                VTextBox ff fr fs \<Rightarrow>
                  Some (\<lambda>s. s\<lparr>textBoxConfig :=
                               \<lparr>fontFamily = (case ff of Some f \<Rightarrow> f
                                                         | None \<Rightarrow> fontFamily (textBoxConfig s)),
                                fontResize = (case fr of Some r \<Rightarrow> r
                                                         | None \<Rightarrow> fontResize (textBoxConfig s)),
                                fontSize = (case fs of Some f \<Rightarrow> f
                                                       | None \<Rightarrow> fontSize (textBoxConfig s))\<rparr>\<rparr>)
              | _ \<Rightarrow> None)
      else if k = ''ticks''
        then (case v of VArray ts \<Rightarrow> Some (\<lambda>s. s\<lparr>ticks := Some ts\<rparr>) | _ \<Rightarrow> None)
      else if k = ''tickSize'' then (case v of VNumber a \<Rightarrow> Some (\<lambda>s. s\<lparr>tickSize := a\<rparr>) | _ \<Rightarrow> None)
      else if k = ''width'' then (case v of VNumber a \<Rightarrow> Some (\<lambda>s. s\<lparr>width := a\<rparr>) | _ \<Rightarrow> None)
      else None)"

text \<open>
  \<open>this[k](v)\<close> for a \<open>k\<close> that holds a function. The outer \<open>None\<close> says that the model
  does not cover the call: an accessor given a value its field cannot store, \<open>render\<close>
  given a callback, and \<open>config\<close> and the three position methods, whose arguments are
  objects. \<open>outerBounds\<close>, the function-valued fields and eight functions of
  \<open>Object.prototype\<close> return without changing the instance; \<open>__defineGetter__\<close> and
  \<open>__defineSetter__\<close> expect a function as their second argument and get none; a class
  constructor called without \<open>new\<close> is a TypeError.
\<close>

definition call_member :: "env \<Rightarrow> string \<Rightarrow> jsval \<Rightarrow> legend \<Rightarrow> (failure + legend) option" where
  "call_member e k v s =
     (case setter k v of
        Some f \<Rightarrow> Some (Inr (f s))
      | None \<Rightarrow>
          if k = ''outerBounds'' \<or> k \<in> set (function_fields s)
             \<or> k \<in> set [''hasOwnProperty'', ''isPrototypeOf'', ''propertyIsEnumerable'',
                          ''toLocaleString'', ''toString'', ''valueOf'',
                          ''__lookupGetter__'', ''__lookupSetter__'']
          then Some (Inr s)
          else if k = ''render'' \<and> v = VUndefined then Some (render e s)
          else if k = ''constructor''
            then Some (Inl \<lparr>f_error = TypeError Constructor_without_new, f_measured = []\<rparr>)
          else if k \<in> set [''__defineGetter__'', ''__defineSetter__'']
            then Some (Inl \<lparr>f_error = TypeError Expecting_function, f_measured = []\<rparr>)
          else None)"

text \<open>
  \<open>config(_)\<close> with an argument: the own enumerable properties of the argument in
  order, each called when \<open>k in this\<close>. Calling a property that holds no function is a
  TypeError.
\<close>

fun config_set :: "env \<Rightarrow> legend \<Rightarrow> (string \<times> jsval) list \<Rightarrow> (failure + legend) option" where
  "config_set e s [] = Some (Inr s)"
| "config_set e s ((k, v) # kvs) =
     (case member_of s k of
        None \<Rightarrow> config_set e s kvs
      | Some Data \<Rightarrow> Some (Inl \<lparr>f_error = TypeError Not_a_function, f_measured = []\<rparr>)
      | Some Function \<Rightarrow>
          (case call_member e k v s of
             None \<Rightarrow> None
           | Some (Inl err) \<Rightarrow> Some (Inl err)
           | Some (Inr s') \<Rightarrow> config_set e s' kvs))"


section \<open>Collaborators used in the examples\<close>

text \<open>
  Modelled from the spec: the linear kind of the scale provider (\<open>scaleLinear\<close> of
  d3-scale, which is not part of this repository). It maps the domain onto the range by
  linear interpolation, \<open>domain[0]\<close> to the start of the range and \<open>domain[1]\<close> to its
  end; an argument that is no number gives \<open>NaN\<close>. Its tick generator is an argument.
\<close>

definition linear_forward :: "real \<times> real \<Rightarrow> jsnum \<times> jsnum \<Rightarrow> real option \<Rightarrow> jsnum" where
  "linear_forward dm rng v =
     (case (v, rng) of
        (Some x, (Num r0, Num r1)) \<Rightarrow>
          Num (r0 + (if fst dm = snd dm then 0 else (x - fst dm) / (snd dm - fst dm)) * (r1 - r0))
      | _ \<Rightarrow> NaN)"

definition scaleLinear :: "(real \<times> real \<Rightarrow> real list) \<Rightarrow> scale_kind" where
  "scaleLinear tk = \<lparr>forward = linear_forward, gen_ticks = tk\<rparr>"

text \<open>
  An environment for the examples. \<open>toUpperCase\<close> is the case mapping as far as the
  examples use it: the ASCII letters, the long s (U+017F, to \<open>S\<close>), the dotless i
  (U+0131, to \<open>I\<close>) and the sharp s (U+00DF, to \<open>SS\<close>). d3-scale exports \<open>scaleLinear\<close> only, with the two ends of the
  domain as ticks. The measurer honours the width it is given: every label is the one
  word \<open>00\<close>, six pixels wide per character, on one line when the width allows it, and
  the line is left empty when it does not.
\<close>

definition upper_unit :: "nat \<Rightarrow> jsstring" where
  "upper_unit u =
     (if 97 \<le> u \<and> u \<le> 122 then [u - 32]
      else if u = 383 then [83]
      else if u = 305 then [73]
      else if u = 223 then [83, 83]
      else [u])"

definition example_kind :: scale_kind where
  "example_kind = scaleLinear (\<lambda>dm. [fst dm, snd dm])"

definition example_env :: env where
  "example_env =
     \<lparr>toUpperCase = (\<lambda>us. concat (map upper_unit us)),
      scales = (\<lambda>n. if n = str ''scaleLinear'' then Some example_kind else None),
      textWrap = (\<lambda>f sz lh w h d. if 12 \<le> w then [''00''] else ['''']),
      textWidth = (\<lambda>t f sz. 6 * real (length t))\<rparr>"

text \<open>
  A legend as constructed, with font size 8 and the ticks 0, 5 and 10 given explicitly.
\<close>

definition example_legend :: legend where
  "example_legend =
     (constructor (\<lambda>d i. ''sans-serif'') 0)
       \<lparr>textBoxConfig := \<lparr>fontFamily = (\<lambda>d i. ''sans-serif''), fontResize = False,
                          fontSize = (\<lambda>d i. 8)\<rparr>,
        ticks := Some [0, 5, 10]\<rparr>"

text \<open>
  What the layout pass computes for this legend in this environment (checked below): the
  scale first ranged over \<open>[5, 395]\<close>, ticks 195 apart and a budget of 190, three labels
  12 wide and 10 high, the final range \<open>[11, 389]\<close> and the outer bounds.
\<close>

definition example_label :: text_data where
  "example_label = \<lparr>td_lines = [''00''], td_width = Num 12, td_height = Num 10\<rparr>"

definition example_layout :: layout where
  "example_layout =
     \<lparr>l_ticks = [0, 5, 10],
      l_scale0 = \<lparr>sc_kind = example_kind, sc_domain = (0, 10), sc_range = (Num 5, Num 395)\<rparr>,
      l_space = 190,
      l_textData = [example_label, example_label, example_label],
      l_scale = \<lparr>sc_kind = example_kind, sc_domain = (0, 10), sc_range = (Num 11, Num 389)\<rparr>,
      l_bounds = \<lparr>b_width = Num 378, b_height = Num 25, b_x = Num 11, b_y = Num (75 / 2)\<rparr>\<rparr>"

text \<open>The instance after \<open>render\<close>.\<close>

definition example_rendered :: legend where
  "example_rendered =
     example_legend\<lparr>select := Some ''svg'', d3Scale := Some (l_scale example_layout),
                    outerBounds := l_bounds example_layout,
                    lastScale := Some (l_scale example_layout)\<rparr>"

section \<open>Properties stated by the specification\<close>


text \<open>
  The sign test of the specification on a scale: \<open>s(domain[1]) - s(domain[0])\<close> is a
  number with the sign of \<open>domain[1] - domain[0]\<close>.
\<close>

definition sign_agrees :: "d3scale \<Rightarrow> bool" where
  "sign_agrees sc =
     (case js_sub (scale_apply sc (Some (snd (sc_domain sc))))
                  (scale_apply sc (Some (fst (sc_domain sc)))) of
        Num g \<Rightarrow> sgn g = sgn (snd (sc_domain sc) - fst (sc_domain sc))
      | NaN \<Rightarrow> False)"

text \<open>
  A scale kind that maps the two ends of a domain onto the two ends of a numeric range.
\<close>

definition maps_endpoints :: "scale_kind \<Rightarrow> bool" where
  "maps_endpoints k =
     (\<forall>d0 d1 r0 r1. d0 \<noteq> d1 \<longrightarrow>
        forward k (d0, d1) (Num r0, Num r1) (Some d0) = Num r0
      \<and> forward k (d0, d1) (Num r0, Num r1) (Some d1) = Num r1)"

text \<open>A number that is not negative (and not \<open>NaN\<close>).\<close>

fun nonneg :: "jsnum \<Rightarrow> bool" where
  "nonneg (Num a) = (0 \<le> a)"
| "nonneg NaN = False"

text \<open>
  The bound of the specification on the outer bounds: the size along the scale is at
  most the configured size, and neither width nor height is negative.
\<close>

definition bounds_within :: "legend \<Rightarrow> bounds \<Rightarrow> bool" where
  "bounds_within s b =
     (case get_dim b (pos_width (position s)) of
        Num w \<Rightarrow> w \<le> cfg_dim s (pos_width (position s)) \<and> nonneg (b_width b) \<and> nonneg (b_height b)
      | NaN \<Rightarrow> False)"

text \<open>
  The invariant of the specification on label metrics: widths and heights are
  non-negative numbers.
\<close>

definition labels_measured :: "text_data list \<Rightarrow> bool" where
  "labels_measured td = list_all (\<lambda>t. nonneg (td_width t) \<and> nonneg (td_height t)) td"



text \<open>
  For the orientations \<open>top\<close> and \<open>bottom\<close>: the distance across the scale between the
  tips of the ticks and the label boxes, for each tick. The box of a label reaches from
  its \<open>y\<close> over its height; the tip of a tick is the bar edge plus the tick offset.
\<close>

definition label_gap :: "legend \<Rightarrow> text_box \<Rightarrow> jsnum list" where
  "label_gap s b =
     map (\<lambda>y. if orient s = ''top''
              then js_sub (js_add (edge_position s) (Num (tick_offset s))) (js_add y (tb_height b))
              else js_sub y (js_add (edge_position s) (Num (tick_offset s))))
         (tb_y b)"


section \<open>Arithmetic of the number model\<close>

lemma js_sub_half: "js_sub (js_half a) (js_half b) = js_half (js_sub a b)"
  by (cases a; cases b) (simp_all add: diff_divide_distrib)


lemma nonneg_Num: "nonneg x \<Longrightarrow> \<exists>a. x = Num a \<and> 0 \<le> a"
  by (cases x) simp_all

lemma d3max_nonneg:
  assumes "xs \<noteq> []" and "list_all nonneg xs"
  shows "\<exists>m. d3max xs = Num m \<and> 0 \<le> m"
  using assms
proof (induction xs)
  case Nil
  then show ?case by simp
next
  case (Cons x xs)
  from Cons.prems obtain a where a: "x = Num a" "0 \<le> a"
    by (auto dest: nonneg_Num)
  show ?case
  proof (cases xs)
    case Nil
    with a show ?thesis by simp
  next
    case (Cons y ys)
    with Cons.IH Cons.prems obtain m where "d3max xs = Num m" "0 \<le> m"
      by auto
    with a show ?thesis by simp
  qed
qed

lemma td_get_nonneg:
  "nonneg (td_width t) \<and> nonneg (td_height t) \<Longrightarrow> nonneg (td_get t r)"
  by (cases r) simp_all

lemma labels_measured_get:
  assumes "labels_measured td" and "t \<in> set td"
  shows "nonneg (td_get t r)"
  using assms by (auto simp: labels_measured_def list_all_iff intro: td_get_nonneg)

section \<open>Roles and bounds\<close>

lemma orient_set_roles:
  "position (orient_set v s) =
     (if v = ''top'' \<or> v = ''bottom''
      then \<lparr>pos_width = Width, pos_height = Height, pos_x = X, pos_y = Y\<rparr>
      else \<lparr>pos_width = Height, pos_height = Width, pos_x = Y, pos_y = X\<rparr>)"
  by (simp add: orient_set_def)

lemma roles_distinct:
  "pos_width (position (orient_set v s)) \<noteq> pos_height (position (orient_set v s))"
  "pos_x (position (orient_set v s)) \<noteq> pos_y (position (orient_set v s))"
  by (simp_all add: orient_set_roles)

lemma orient_set_swap:
  assumes "(v1 = ''top'' \<or> v1 = ''bottom'') = (v2 = ''top'' \<or> v2 = ''bottom'')"
  shows "orient_set v2 s = (orient_set v1 s)\<lparr>orient := v2\<rparr>"
  using assms by (simp add: orient_set_def Let_def)

lemma get_put_dim: "get_dim (put_dim r x b) r' = (if r = r' then x else get_dim b r')"
  by (cases r; cases r') simp_all

lemma get_dim_put_axis: "get_dim (put_axis r x b) r' = get_dim b r'"
  by (cases r; cases r') simp_all

lemma get_put_axis: "get_axis (put_axis r x b) r' = (if r = r' then x else get_axis b r')"
  by (cases r; cases r') simp_all

lemma get_axis_put_dim: "get_axis (put_dim r x b) r' = get_axis b r'"
  by (cases r; cases r') simp_all

lemmas bounds_simps = get_put_dim get_dim_put_axis get_put_axis get_axis_put_dim

section \<open>The result of the layout pass\<close>

lemma layout_pass_Some:
  assumes k: "scales e (export_name e (scale s)) = Some k"
    and t: "tick_values k s \<noteq> []"
  defines "sc \<equiv> \<lparr>sc_kind = k, sc_domain = domain s,
                  sc_range = (Num (padding s), Num (padding s + usable_size s))\<rparr>"
  defines "space \<equiv> max_gap sc (tick_values k s) 0 - padding s"
  defines "td \<equiv> map (\<lambda>(i, d). measureText e s space d i) (enumerate 0 (tick_values k s))"
  defines "fw \<equiv> td_get (hd td) (pos_width (position s))"
  defines "lw \<equiv> td_get (last td) (pos_width (position s))"
  defines "sz \<equiv> js_sub (Num (usable_size s)) (js_add (js_half fw) (js_half lw))"
  defines "ob \<equiv> put_axis (pos_x (position s)) (js_add (Num (padding s)) (js_half fw))
                  (put_dim (pos_width (position s)) sz
                     (put_dim (pos_height (position s))
                        (js_add (js_add (Num (tickSize s))
                                   (d3max (map (\<lambda>t. td_get t (pos_height (position s))) td)))
                                (Num (padding s * 2)))
                        no_bounds))"
  shows "layout_pass e s =
     Inr \<lparr>l_ticks = tick_values k s, l_scale0 = sc, l_space = space, l_textData = td,
          l_scale = sc\<lparr>sc_range := (js_add (Num (padding s)) (js_half fw),
                                    js_add (js_add (Num (padding s)) (js_half fw)) sz)\<rparr>,
          l_bounds = put_axis (pos_y (position s))
                       (if align s = ''start'' then Num (padding s)
                        else if align s = ''end''
                          then js_sub (Num (cfg_dim s (pos_height (position s))))
                                      (get_dim ob (pos_height (position s)))
                        else js_sub (Num (cfg_dim s (pos_height (position s)) / 2))
                                    (js_half (get_dim ob (pos_height (position s)))))
                       ob\<rparr>"
proof -
  obtain v vs where vs: "tick_values k s = v # vs"
    using t by (cases "tick_values k s") auto
  show ?thesis
    unfolding sc_def space_def td_def fw_def lw_def sz_def ob_def
    by (simp add: layout_pass_def k vs enumerate_eq_zip Let_def upt_conv_Cons del: upt_Suc)
qed

lemma layout_pass_InrD:
  assumes "layout_pass e s = Inr l"
  shows "\<exists>k. scales e (export_name e (scale s)) = Some k \<and> tick_values k s \<noteq> []"
  using assms
  by (auto simp: layout_pass_def Let_def split: option.splits list.splits)

lemma layout_pass_None:
  assumes "scales e (export_name e (scale s)) = None"
  shows "layout_pass e s = Inl \<lparr>f_error = TypeError Not_a_function, f_measured = []\<rparr>"
  using assms by (simp add: layout_pass_def Let_def)

lemma layout_pass_Nil:
  assumes "scales e (export_name e (scale s)) = Some k" and "tick_values k s = []"
  shows "layout_pass e s = Inl \<lparr>f_error = TypeError Property_of_undefined, f_measured = []\<rparr>"
  using assms by (simp add: layout_pass_def Let_def enumerate_eq_zip)


lemma layout_pass_fields:
  assumes l: "layout_pass e s = Inr l"
  shows lp_ticks: "l_ticks l \<noteq> []"
    and lp_space: "l_space l = max_gap (l_scale0 l) (l_ticks l) 0 - padding s"
    and lp_textData:
      "l_textData l = map (\<lambda>(i, d). measureText e s (l_space l) d i) (enumerate 0 (l_ticks l))"
    and lp_textData_ne: "l_textData l \<noteq> []"
    and lp_primary: "get_dim (l_bounds l) (pos_width (position s)) =
       js_sub (Num (usable_size s))
         (js_add (js_half (td_get (hd (l_textData l)) (pos_width (position s))))
                 (js_half (td_get (last (l_textData l)) (pos_width (position s)))))"
    and lp_secondary: "pos_width (position s) \<noteq> pos_height (position s) \<Longrightarrow>
     get_dim (l_bounds l) (pos_height (position s)) =
       js_add (js_add (Num (tickSize s))
                 (d3max (map (\<lambda>t. td_get t (pos_height (position s))) (l_textData l))))
              (Num (padding s * 2))"
    and lp_x: "pos_x (position s) \<noteq> pos_y (position s) \<Longrightarrow>
     get_axis (l_bounds l) (pos_x (position s)) = fst (sc_range (l_scale l))"
    and lp_y: "get_axis (l_bounds l) (pos_y (position s)) =
       (if align s = ''start'' then Num (padding s)
        else if align s = ''end''
          then js_sub (Num (cfg_dim s (pos_height (position s))))
                      (get_dim (l_bounds l) (pos_height (position s)))
        else js_half (js_sub (Num (cfg_dim s (pos_height (position s))))
                             (get_dim (l_bounds l) (pos_height (position s)))))"
proof -
  from layout_pass_InrD [OF l] obtain k where
    k: "scales e (export_name e (scale s)) = Some k" and t: "tick_values k s \<noteq> []"
    by blast
  have l_eq: "l = projr (layout_pass e s)"
    using l by simp
  note eq = layout_pass_Some [OF k t]
  have half: "\<And>c x. js_sub (Num (c / 2)) (js_half x) = js_half (js_sub (Num c) x)"
    using js_sub_half [of "Num _"] by simp
  show "l_ticks l \<noteq> []" using t by (simp add: l_eq eq)
  show "l_space l = max_gap (l_scale0 l) (l_ticks l) 0 - padding s"
    by (simp add: l_eq eq)
  show "l_textData l = map (\<lambda>(i, d). measureText e s (l_space l) d i) (enumerate 0 (l_ticks l))"
    by (simp add: l_eq eq)
  show "l_textData l \<noteq> []"
    using t by (simp add: l_eq eq enumerate_eq_zip)
  show "get_dim (l_bounds l) (pos_width (position s)) =
     js_sub (Num (usable_size s))
       (js_add (js_half (td_get (hd (l_textData l)) (pos_width (position s))))
               (js_half (td_get (last (l_textData l)) (pos_width (position s)))))"
    by (simp add: l_eq eq bounds_simps)
  show "get_dim (l_bounds l) (pos_height (position s)) =
     js_add (js_add (Num (tickSize s))
               (d3max (map (\<lambda>t. td_get t (pos_height (position s))) (l_textData l))))
            (Num (padding s * 2))"
    if "pos_width (position s) \<noteq> pos_height (position s)"
    using that by (simp add: l_eq eq bounds_simps)
  show "get_axis (l_bounds l) (pos_x (position s)) = fst (sc_range (l_scale l))"
    if "pos_x (position s) \<noteq> pos_y (position s)"
    using that by (simp add: l_eq eq bounds_simps)
  show "get_axis (l_bounds l) (pos_y (position s)) =
     (if align s = ''start'' then Num (padding s)
      else if align s = ''end''
        then js_sub (Num (cfg_dim s (pos_height (position s))))
                    (get_dim (l_bounds l) (pos_height (position s)))
      else js_half (js_sub (Num (cfg_dim s (pos_height (position s))))
                           (get_dim (l_bounds l) (pos_height (position s)))))"
    by (simp add: l_eq eq bounds_simps half)
qed

text \<open>The fields of the instance that the layout pass reads.\<close>

lemma layout_pass_cong:
  assumes "position s' = position s" and "padding s' = padding s" and "scale s' = scale s"
    and "domain s' = domain s" and "ticks s' = ticks s" and "width s' = width s"
    and "height s' = height s" and "tickSize s' = tickSize s" and "align s' = align s"
    and "textBoxConfig s' = textBoxConfig s"
  shows "layout_pass e s' = layout_pass e s"
proof -
  have c: "cfg_dim s' r = cfg_dim s r" for r
    using assms by (cases r) simp_all
  have u: "usable_size s' = usable_size s"
    using assms by (simp add: usable_size_def c)
  have t: "tick_values k s' = tick_values k s" for k
    using assms by (simp add: tick_values_def split: option.splits)
  have m: "measureText e s' = measureText e s"
    using assms by (simp add: measureText_def lineHeight_def fun_eq_iff)
  show ?thesis
  proof (cases "scales e (export_name e (scale s))")
    case None
    then show ?thesis
      using assms by (simp add: layout_pass_None)
  next
    case (Some k)
    then have k': "scales e (export_name e (scale s')) = Some k"
      using assms by simp
    show ?thesis
    proof (cases "tick_values k s = []")
      case True
      then show ?thesis
        using Some k' by (simp add: layout_pass_Nil t)
    next
      case False
      then have "tick_values k s' \<noteq> []" by (simp add: t)
      then show ?thesis
        using assms False by (simp add: layout_pass_Some [OF Some] layout_pass_Some [OF k'] c u t m)
    qed
  qed
qed

lemma layout_pass_frame:
  "layout_pass e (s\<lparr>orient := a\<rparr>) = layout_pass e s"
  "layout_pass e (s\<lparr>select := b\<rparr>) = layout_pass e s"
  "layout_pass e (s\<lparr>d3Scale := c\<rparr>) = layout_pass e s"
  "layout_pass e (s\<lparr>outerBounds := d\<rparr>) = layout_pass e s"
  "layout_pass e (s\<lparr>lastScale := c'\<rparr>) = layout_pass e s"
  by (rule layout_pass_cong; simp)+

lemma render_Inr:
  assumes "render e s = Inr s1"
  shows "\<exists>l. layout_pass e s = Inr l
     \<and> s1 = s\<lparr>select := (if select s = None then Some ''svg'' else select s),
               d3Scale := Some (l_scale l), outerBounds := l_bounds l,
               lastScale := Some (l_scale l)\<rparr>"
  using assms
  by (auto simp: render_def Let_def layout_pass_frame split: sum.splits if_splits)

section \<open>The widest gap\<close>





section \<open>Property lookup\<close>





section \<open>The examples evaluated\<close>

lemmas example_simps =
  example_env_def example_kind_def example_legend_def constructor_def orient_set_def
  str_def upper_unit_def
  scaleLinear_def linear_forward_def scale_apply_def measureText_def lineHeight_def
  usable_size_def tick_values_def enumerate_eq_zip no_bounds_def

lemma ex_scale: "scales example_env (export_name example_env (scale example_legend)) = Some example_kind"
  by (simp add: example_env_def example_legend_def constructor_def orient_set_def
      str_def upper_unit_def)

lemma ex_ticks: "tick_values example_kind example_legend = [0, 5, 10]"
  by (simp add: example_simps)

lemma ex_orient: "example_legend = orient_set ''bottom'' example_legend"
  by (simp add: example_legend_def constructor_def orient_set_def)

lemma ex_fields:
  "padding example_legend = 5" "tickSize example_legend = 5" "width example_legend = 400"
  "height example_legend = 100" "align example_legend = ''middle''"
  "domain example_legend = (0, 10)" "strokeWidth example_legend = 1"
  "position example_legend = \<lparr>pos_width = Width, pos_height = Height, pos_x = X, pos_y = Y\<rparr>"
  "fontFamily (textBoxConfig example_legend) d i = ''sans-serif''"
  "fontSize (textBoxConfig example_legend) d i = 8"
  by (simp_all add: example_legend_def constructor_def orient_set_def)

lemma ex_layout: "layout_pass example_env example_legend = Inr example_layout"
  by (simp add: layout_pass_def Let_def example_layout_def example_label_def example_simps)

lemma ex_render: "render example_env example_legend = Inr example_rendered"
  by (simp add: render_def layout_pass_frame ex_layout example_rendered_def)
     (simp add: example_legend_def constructor_def orient_set_def)

lemma ex_render_top:
  "render example_env (orient_set ''top'' example_legend) = Inr (example_rendered\<lparr>orient := ''top''\<rparr>)"
proof -
  have sw: "orient_set ''top'' example_legend = example_legend\<lparr>orient := ''top''\<rparr>"
    by (simp add: example_legend_def constructor_def orient_set_def)
  show ?thesis
    by (simp add: sw render_def layout_pass_frame ex_layout example_rendered_def)
       (simp add: example_legend_def constructor_def orient_set_def)
qed

lemma ex_layout_top: "layout_pass example_env (orient_set ''top'' example_legend) = Inr example_layout"
proof -
  have sw: "orient_set ''top'' example_legend = example_legend\<lparr>orient := ''top''\<rparr>"
    by (simp add: example_legend_def constructor_def orient_set_def)
  show ?thesis
    by (simp add: sw layout_pass_frame ex_layout)
qed

lemma ex_export_name:
  "export_name example_env (str ''linear'') = str ''scaleLinear''"
  "export_name example_env (383 # str ''qrt'') = str ''scaleSqrt''"
  "export_name example_env (str ''cubic'') = str ''scaleCubic''"
  by (simp_all add: example_env_def str_def upper_unit_def)

lemma ex_config_inherited:
  "config_set example_env example_legend [(''__defineGetter__'', VNumber 1), (''width'', VNumber 7)]
     = Some (Inl \<lparr>f_error = TypeError Expecting_function, f_measured = []\<rparr>)"
  "config_set example_env example_legend [(''__proto__'', VNumber 1), (''width'', VNumber 7)]
     = Some (Inl \<lparr>f_error = TypeError Not_a_function, f_measured = []\<rparr>)"
  "config_set example_env example_legend [(''toString'', VNumber 1), (''width'', VNumber 7)]
     = Some (Inr (example_legend\<lparr>width := 7\<rparr>))"
  by (simp_all add: member_of_def data_fields_def function_fields_def class_methods_def
        object_prototype_functions_def call_member_def setter_def
        example_legend_def constructor_def orient_set_def)

lemma ex_maps_endpoints: "maps_endpoints example_kind"
  by (simp add: maps_endpoints_def example_kind_def scaleLinear_def linear_forward_def)

section \<open>C1: range narrowing\<close>



section \<open>C2: the sign of the scale\<close>

text \<open>
  C2 as stated fails. With the domain \<open>[10, 0]\<close> and the ticks 10, 5, 0 the final range
  is \<open>[11, 389]\<close>, so \<open>s(domain[1]) - s(domain[0])\<close> is 378 while
  \<open>domain[1] - domain[0]\<close> is negative: \<open>render\<close> always gives the scale an ascending
  range, whatever the order of the domain.
\<close>

theorem sign_agrees_counterexample:
  "map_sum id (\<lambda>l. (sc_domain (l_scale l), sc_range (l_scale l), l_space l, sign_agrees (l_scale l)))
     (layout_pass example_env (example_legend\<lparr>domain := (10, 0), ticks := Some [10, 5, 0]\<rparr>))
   = Inr ((10, 0), (Num 11, Num 389), 190, False)"
  by (simp add: layout_pass_def sign_agrees_def Let_def example_simps)

text \<open>
  C2, amended. For a scale kind that maps the ends of the domain onto the ends of the
  range, a domain with two different ends and numeric sizes \<open>a\<close> and \<open>b\<close> of the first and
  the last label, the final scale satisfies
  \<open>s(domain[1]) - s(domain[0]) = W - a/2 - b/2\<close>. So the sign test of the specification
  holds exactly when the narrowed size has the sign of \<open>domain[1] - domain[0]\<close>.
\<close>

theorem endpoint_difference_is_narrowed_size:
  assumes l: "layout_pass e s = Inr l"
    and k: "maps_endpoints (sc_kind (l_scale l))"
    and d: "fst (domain s) \<noteq> snd (domain s)"
    and a: "td_get (hd (l_textData l)) (pos_width (position s)) = Num a"
    and b: "td_get (last (l_textData l)) (pos_width (position s)) = Num b"
  shows "js_sub (scale_apply (l_scale l) (Some (snd (sc_domain (l_scale l)))))
                (scale_apply (l_scale l) (Some (fst (sc_domain (l_scale l)))))
           = Num (usable_size s - a / 2 - b / 2)
       \<and> sc_domain (l_scale l) = domain s
       \<and> (sign_agrees (l_scale l)
            \<longleftrightarrow> sgn (usable_size s - a / 2 - b / 2) = sgn (snd (domain s) - fst (domain s)))"
proof -
  from layout_pass_InrD [OF l] obtain k' where
    k': "scales e (export_name e (scale s)) = Some k'" and t: "tick_values k' s \<noteq> []"
    by blast
  note eq = layout_pass_Some [OF k' t]
  from l eq have sc: "l_scale l = \<lparr>sc_kind = k', sc_domain = domain s,
       sc_range = (Num (padding s + a / 2), Num (padding s + a / 2 + (usable_size s - (a / 2 + b / 2))))\<rparr>"
    using a b by auto
  from k sc have ends:
    "forward k' (domain s) (sc_range (l_scale l)) (Some (fst (domain s))) = Num (padding s + a / 2)"
    "forward k' (domain s) (sc_range (l_scale l)) (Some (snd (domain s)))
       = Num (padding s + a / 2 + (usable_size s - (a / 2 + b / 2)))"
    using d by (cases "domain s"; simp add: maps_endpoints_def)+
  have diff: "js_sub (scale_apply (l_scale l) (Some (snd (sc_domain (l_scale l)))))
                (scale_apply (l_scale l) (Some (fst (sc_domain (l_scale l)))))
           = Num (usable_size s - a / 2 - b / 2)"
    using ends by (simp add: scale_apply_def sc)
  show ?thesis
    using diff by (simp add: sign_agrees_def sc)
qed

theorem endpoint_difference_witness:
  "layout_pass example_env example_legend = Inr example_layout
   \<and> maps_endpoints (sc_kind (l_scale example_layout))
   \<and> fst (domain example_legend) \<noteq> snd (domain example_legend)
   \<and> js_sub (scale_apply (l_scale example_layout) (Some 10))
             (scale_apply (l_scale example_layout) (Some 0)) = Num 378
   \<and> sign_agrees (l_scale example_layout)"
proof -
  have k: "maps_endpoints (sc_kind (l_scale example_layout))"
    by (simp add: example_layout_def ex_maps_endpoints)
  have d: "fst (domain example_legend) \<noteq> snd (domain example_legend)"
    by (simp add: ex_fields)
  have a: "td_get (hd (l_textData example_layout)) (pos_width (position example_legend)) = Num 12"
    and b: "td_get (last (l_textData example_layout)) (pos_width (position example_legend)) = Num 12"
    by (simp_all add: example_layout_def example_label_def ex_fields)
  from endpoint_difference_is_narrowed_size [OF ex_layout k d a b]
  have "js_sub (scale_apply (l_scale example_layout) (Some 10))
               (scale_apply (l_scale example_layout) (Some 0)) = Num 378
        \<and> sign_agrees (l_scale example_layout)"
    by (simp add: usable_size_def ex_fields example_layout_def)
  with ex_layout k d show ?thesis by simp
qed

section \<open>C3: the size of the outer bounds\<close>

text \<open>
  C3 as stated fails. With a configured width of 5 and padding 5 the size left after the
  padding is -5. The labels cannot make it larger, so the outer bounds are -5 wide even
  with labels of width 0: nothing in \<open>render\<close> keeps the size from going below zero.
\<close>

theorem primary_size_negative_counterexample:
  "map_sum id (\<lambda>l. (map td_width (l_textData l), l_bounds l,
                      bounds_within (example_legend\<lparr>width := 5\<rparr>) (l_bounds l)))
     (layout_pass example_env (example_legend\<lparr>width := 5\<rparr>))
   = Inr ([Num 0, Num 0, Num 0],
          \<lparr>b_width = Num (- 5), b_height = Num 25, b_x = Num 5, b_y = Num (75 / 2)\<rparr>, False)"
  by (simp add: layout_pass_def bounds_within_def Let_def example_simps)

text \<open>
  C3, amended. For every orientation, with non-negative padding and tick size and labels
  measured as non-negative numbers, the size of the outer bounds along the scale is
  the configured size minus twice the padding minus half of the first and half of the
  last label, which is at most the configured size, and the size across the scale is
  not negative. The size along the scale is negative whenever less than nothing is left
  after the padding.
\<close>

theorem outer_bounds_sizes:
  assumes s: "s = orient_set v s0"
    and l: "layout_pass e s = Inr l"
    and p: "0 \<le> padding s"
    and ts: "0 \<le> tickSize s"
    and m: "labels_measured (l_textData l)"
  shows "\<exists>w h a b.
           get_dim (l_bounds l) (pos_width (position s)) = Num w
         \<and> get_dim (l_bounds l) (pos_height (position s)) = Num h
         \<and> td_get (hd (l_textData l)) (pos_width (position s)) = Num a
         \<and> td_get (last (l_textData l)) (pos_width (position s)) = Num b
         \<and> w = cfg_dim s (pos_width (position s)) - 2 * padding s - a / 2 - b / 2
         \<and> w \<le> cfg_dim s (pos_width (position s))
         \<and> 0 \<le> h
         \<and> (usable_size s < 0 \<longrightarrow> w < 0)"
proof -
  have d: "pos_width (position s) \<noteq> pos_height (position s)"
    by (simp add: s roles_distinct)
  note ne = lp_textData_ne [OF l]
  note w = lp_primary [OF l]
  note h = lp_secondary [OF l d]
  from m ne obtain a where a: "td_get (hd (l_textData l)) (pos_width (position s)) = Num a" "0 \<le> a"
    using labels_measured_get [of "l_textData l" "hd (l_textData l)"] nonneg_Num by force
  from m ne obtain b where b: "td_get (last (l_textData l)) (pos_width (position s)) = Num b" "0 \<le> b"
    using labels_measured_get [of "l_textData l" "last (l_textData l)"] nonneg_Num by force
  have "list_all nonneg (map (\<lambda>t. td_get t (pos_height (position s))) (l_textData l))"
    using m by (auto simp: list_all_iff intro: labels_measured_get)
  with ne obtain mx where mx:
    "d3max (map (\<lambda>t. td_get t (pos_height (position s))) (l_textData l)) = Num mx" "0 \<le> mx"
    using d3max_nonneg [of "map (\<lambda>t. td_get t (pos_height (position s))) (l_textData l)"] by auto
  show ?thesis
    using w h a b mx p ts by (simp add: usable_size_def)
qed

theorem outer_bounds_sizes_witness:
  "example_legend = orient_set ''bottom'' example_legend
   \<and> layout_pass example_env example_legend = Inr example_layout
   \<and> 0 \<le> padding example_legend \<and> 0 \<le> tickSize example_legend
   \<and> labels_measured (l_textData example_layout)
   \<and> (\<exists>w h. b_width (l_bounds example_layout) = Num w \<and> b_height (l_bounds example_layout) = Num h
         \<and> w = 400 - 2 * 5 - 12 / 2 - 12 / 2 \<and> w \<le> 400 \<and> 0 \<le> h)"
proof -
  have p: "0 \<le> padding example_legend" and ts: "0 \<le> tickSize example_legend"
    by (simp_all add: ex_fields)
  have m: "labels_measured (l_textData example_layout)"
    by (simp add: labels_measured_def example_layout_def example_label_def)
  from outer_bounds_sizes [OF ex_orient ex_layout p ts m]
  have "\<exists>w h. b_width (l_bounds example_layout) = Num w \<and> b_height (l_bounds example_layout) = Num h
         \<and> w = 400 - 2 * 5 - 12 / 2 - 12 / 2 \<and> w \<le> 400 \<and> 0 \<le> h"
    by (simp add: ex_fields example_layout_def example_label_def)
  with ex_orient ex_layout p ts m show ?thesis by blast
qed

section \<open>C4: the spacing budget of fewer than two ticks\<close>

text \<open>
  C4 as stated fails. With the single tick 5 and padding 5 the budget is the number -5,
  and the label is measured by \<open>textWrap\<close> with the width -5: the budget is not
  unbounded.
\<close>

theorem single_tick_budget_counterexample:
  "map_sum id (\<lambda>l. (l_space l,
                      l_textData l = [measureText example_env (example_legend\<lparr>ticks := Some [5]\<rparr>) (- 5) 5 0]))
     (layout_pass example_env (example_legend\<lparr>ticks := Some [5]\<rparr>))
   = Inr (- 5, True)"
  by (simp add: layout_pass_def Let_def example_simps)

text \<open>
  C4, amended. For a scale kind that maps \<open>undefined\<close> to \<open>NaN\<close> and fewer than two
  ticks, the loop over the ticks ends with the budget \<open>0 - padding\<close>: the element it
  reads past the end of the ticks is \<open>undefined\<close>, the difference is \<open>NaN\<close> and the
  comparison is false. With exactly one tick the layout pass returns, and the lines
  of its label are what \<open>textWrap\<close> gives for the width \<open>- padding\<close> and the height
  \<open>height - tickSize - padding\<close>.
\<close>

theorem few_ticks_budget:
  assumes k: "scales e (export_name e (scale s)) = Some k"
    and u: "\<forall>dm rng. forward k dm rng None = NaN"
    and n: "length (tick_values k s) < 2"
  shows "max_gap \<lparr>sc_kind = k, sc_domain = domain s,
                  sc_range = (Num (padding s), Num (padding s + usable_size s))\<rparr>
           (tick_values k s) 0 - padding s = - padding s
       \<and> (tick_values k s = [v] \<longrightarrow>
            (\<exists>l. layout_pass e s = Inr l
               \<and> l_space l = - padding s
               \<and> l_textData l = [measureText e s (- padding s) v 0]
               \<and> td_lines (measureText e s (- padding s) v 0) =
                   textWrap e (fontFamily (textBoxConfig s) v 0) (fontSize (textBoxConfig s) v 0)
                     (lineHeight s v 0) (- padding s) (height s - tickSize s - padding s) v))"
proof -
  let ?sc = "\<lparr>sc_kind = k, sc_domain = domain s,
              sc_range = (Num (padding s), Num (padding s + usable_size s))\<rparr>"
  have gap: "max_gap ?sc (tick_values k s) 0 = 0"
  proof (cases "tick_values k s")
    case Nil
    then show ?thesis by simp
  next
    case (Cons w ws)
    with n have "ws = []" by simp
    moreover have "forward k dm rng None = NaN" for dm rng
      using u by blast
    ultimately show ?thesis using Cons by (simp add: scale_apply_def)
  qed
  have single: "\<exists>l. layout_pass e s = Inr l
               \<and> l_space l = - padding s
               \<and> l_textData l = [measureText e s (- padding s) v 0]
               \<and> td_lines (measureText e s (- padding s) v 0) =
                   textWrap e (fontFamily (textBoxConfig s) v 0) (fontSize (textBoxConfig s) v 0)
                     (lineHeight s v 0) (- padding s) (height s - tickSize s - padding s) v"
    if v: "tick_values k s = [v]"
  proof -
    have t: "tick_values k s \<noteq> []" using v by simp
    show ?thesis
      using gap by (simp add: layout_pass_Some [OF k t] v enumerate_eq_zip measureText_def Let_def)
  qed
  show ?thesis
    using gap single by simp
qed

theorem few_ticks_budget_witness:
  "scales example_env (export_name example_env (scale (example_legend\<lparr>ticks := Some [5]\<rparr>))) = Some example_kind
   \<and> (\<forall>dm rng. forward example_kind dm rng None = NaN)
   \<and> length (tick_values example_kind (example_legend\<lparr>ticks := Some [5]\<rparr>)) < 2
   \<and> (\<exists>l. layout_pass example_env (example_legend\<lparr>ticks := Some [5]\<rparr>) = Inr l
          \<and> l_space l = - 5
          \<and> map td_lines (l_textData l) = [textWrap example_env ''sans-serif'' 8 (44 / 5) (- 5) 90 5])"
proof -
  let ?s = "example_legend\<lparr>ticks := Some [5]\<rparr>"
  have k: "scales example_env (export_name example_env (scale ?s)) = Some example_kind"
    using ex_scale by simp
  have u: "\<forall>dm rng. forward example_kind dm rng None = NaN"
    by (simp add: example_kind_def scaleLinear_def linear_forward_def)
  have t: "tick_values example_kind ?s = [5]"
    by (simp add: tick_values_def)
  have n: "length (tick_values example_kind ?s) < 2"
    by (simp add: t)
  from few_ticks_budget [OF k u n, where v = 5] t
  obtain l where "layout_pass example_env ?s = Inr l"
    and "l_space l = - padding ?s"
    and "l_textData l = [measureText example_env ?s (- padding ?s) 5 0]"
    and "td_lines (measureText example_env ?s (- padding ?s) 5 0) =
           textWrap example_env (fontFamily (textBoxConfig ?s) 5 0) (fontSize (textBoxConfig ?s) 5 0)
             (lineHeight ?s 5 0) (- padding ?s) (height ?s - tickSize ?s - padding ?s) 5"
    by blast
  then have "\<exists>l. layout_pass example_env ?s = Inr l
          \<and> l_space l = - 5
          \<and> map td_lines (l_textData l) = [textWrap example_env ''sans-serif'' 8 (44 / 5) (- 5) 90 5]"
    by (simp add: ex_fields lineHeight_def)
  with k u n show ?thesis by blast
qed

section \<open>C5: no room after the padding\<close>




section \<open>C6: alignment\<close>

text \<open>
  C6. For every orientation and alignment, after a layout pass the position of the outer
  bounds across the scale is the padding when the alignment is \<open>start\<close>, the container
  size minus the size of the outer bounds when it is \<open>end\<close>, and half of that difference
  for every other alignment (\<open>center\<close>, and the constructor's \<open>middle\<close>). Across the
  scale means \<open>y\<close> against the height for \<open>top\<close> and \<open>bottom\<close>, and \<open>x\<close> against the width
  for the other orientations.
\<close>

theorem alignment_position:
  assumes s: "s = orient_set v s0"
    and l: "layout_pass e s = Inr l"
  shows "get_axis (l_bounds l) (pos_y (position s)) =
           (if align s = ''start'' then Num (padding s)
            else if align s = ''end''
              then js_sub (Num (cfg_dim s (pos_height (position s))))
                          (get_dim (l_bounds l) (pos_height (position s)))
            else js_half (js_sub (Num (cfg_dim s (pos_height (position s))))
                                 (get_dim (l_bounds l) (pos_height (position s)))))
       \<and> (pos_height (position s), pos_y (position s)) =
           (if v = ''top'' \<or> v = ''bottom'' then (Height, Y) else (Width, X))
       \<and> cfg_dim s (pos_height (position s)) =
           (if v = ''top'' \<or> v = ''bottom'' then height s0 else width s0)"
proof -
  have "get_axis (l_bounds l) (pos_y (position s)) =
           (if align s = ''start'' then Num (padding s)
            else if align s = ''end''
              then js_sub (Num (cfg_dim s (pos_height (position s))))
                          (get_dim (l_bounds l) (pos_height (position s)))
            else js_half (js_sub (Num (cfg_dim s (pos_height (position s))))
                                 (get_dim (l_bounds l) (pos_height (position s)))))"
    using l by (rule lp_y)
  moreover have "(pos_height (position s), pos_y (position s)) =
           (if v = ''top'' \<or> v = ''bottom'' then (Height, Y) else (Width, X))"
    by (simp add: s orient_set_roles)
  moreover have "cfg_dim s (pos_height (position s)) =
           (if v = ''top'' \<or> v = ''bottom'' then height s0 else width s0)"
    by (simp add: s orient_set_def)
  ultimately show ?thesis by blast
qed

theorem alignment_position_witness:
  "example_legend = orient_set ''bottom'' example_legend
   \<and> layout_pass example_env example_legend = Inr example_layout
   \<and> b_y (l_bounds example_layout) = js_half (js_sub (Num 100) (b_height (l_bounds example_layout)))
   \<and> b_y (l_bounds example_layout) = Num (75 / 2)"
proof -
  from alignment_position [OF ex_orient ex_layout]
  have "b_y (l_bounds example_layout) = js_half (js_sub (Num 100) (b_height (l_bounds example_layout)))"
    by (simp add: ex_fields)
  moreover have "b_y (l_bounds example_layout) = Num (75 / 2)"
    by (simp add: example_layout_def)
  ultimately show ?thesis
    using ex_orient ex_layout by blast
qed

section \<open>C7: swapping the orientation\<close>

text \<open>
  C7 as stated fails: swapping \<open>top\<close> and \<open>bottom\<close> changes more than the sign of the tick
  offset and the side of the bar edge. The layout pass gives the same result for both,
  but the label boxes of \<open>top\<close> end 2 * padding = 10 before the tips of the ticks, and those
  of \<open>bottom\<close> begin padding = 5 after them.
\<close>

theorem label_gap_counterexample:
  "(layout_pass example_env (orient_set ''top'' example_legend),
    layout_pass example_env (orient_set ''bottom'' example_legend),
    map_sum id (\<lambda>s. map_sum id (label_gap s) (labelBox s example_layout))
      (render example_env (orient_set ''top'' example_legend)),
    map_sum id (\<lambda>s. map_sum id (label_gap s) (labelBox s example_layout))
      (render example_env (orient_set ''bottom'' example_legend)))
   = (Inr example_layout, Inr example_layout,
      Inr (Inr [Num 10, Num 10, Num 10]), Inr (Inr [Num 5, Num 5, Num 5]))"
proof -
  have b: "render example_env (orient_set ''bottom'' example_legend) = Inr example_rendered"
          "layout_pass example_env (orient_set ''bottom'' example_legend) = Inr example_layout"
    using ex_render ex_layout ex_orient by simp_all
  show ?thesis
    by (simp add: b ex_render_top ex_layout_top)
       (simp add: labelBox_def label_gap_def edge_position_def tick_offset_def Let_def
          example_rendered_def example_layout_def example_label_def example_kind_def
          scaleLinear_def linear_forward_def scale_apply_def enumerate_eq_zip
          example_legend_def constructor_def orient_set_def)
qed

text \<open>
  C7, amended. Rendering with \<open>top\<close> instead of \<open>bottom\<close>, or \<open>left\<close> instead of \<open>right\<close>, gives the same
  result of the layout pass (scale, ticks, budget, measured labels, outer bounds) and the
  same instance but for \<open>_orient\<close>. Four things differ. The bar and the ticks start at the
  position of the outer bounds plus their size for \<open>top\<close> and \<open>left\<close> and at the position of
  the outer bounds for \<open>bottom\<close> and \<open>right\<close>. The ticks reach from there by \<open>- tickSize\<close> for
  the former and by \<open>tickSize\<close> for the latter; a tick that enters is drawn on the bar
  edge, at the place the scale of the last render gives it. The clip rectangle starts \<open>tickSize\<close> before
  the bar edge for the former and at the bar edge for the latter; its other attributes
  agree. The label boxes have the same width and height and the same position along the
  scale, but across the scale those of \<open>top\<close> start at \<open>_outerBounds.y\<close>, aligned to the
  bottom, and those of \<open>bottom\<close> at \<open>_outerBounds.y + tickSize + padding\<close>, aligned to the
  top; those of \<open>left\<close> start at \<open>_outerBounds.x\<close> minus half the font size, anchored at the
  end, and those of \<open>right\<close> at \<open>_outerBounds.x + tickSize + padding\<close>, anchored at the start.
\<close>

theorem orientation_swap:
  assumes v: "(v1, v2) = (''top'', ''bottom'') \<or> (v1, v2) = (''left'', ''right'')"
    and r1: "render e (orient_set v1 s) = Inr s1"
    and r2: "render e (orient_set v2 s) = Inr s2"
  shows "layout_pass e (orient_set v1 s) = layout_pass e (orient_set v2 s)
       \<and> s2 = s1\<lparr>orient := v2\<rparr>
       \<and> edge_position s1 = js_add (get_axis (outerBounds s1) (pos_y (position s1)))
                                   (get_dim (outerBounds s1) (pos_height (position s1)))
       \<and> edge_position s2 = get_axis (outerBounds s1) (pos_y (position s1))
       \<and> tick_offset s1 = - tickSize s
       \<and> tick_offset s2 = tickSize s
       \<and> (\<exists>sc. d3Scale s1 = Some sc \<and> d3Scale s2 = Some sc
            \<and> barPosition s1 =
                Inr [(axis_name (pos_x (position s1)) @ ''1'', scale_apply sc (Some (fst (sc_domain sc)))),
                     (axis_name (pos_x (position s1)) @ ''2'', scale_apply sc (Some (snd (sc_domain sc)))),
                     (axis_name (pos_y (position s1)) @ ''1'', edge_position s1),
                     (axis_name (pos_y (position s1)) @ ''2'', edge_position s1)]
            \<and> barPosition s2 =
                Inr [(axis_name (pos_x (position s1)) @ ''1'', scale_apply sc (Some (fst (sc_domain sc)))),
                     (axis_name (pos_x (position s1)) @ ''2'', scale_apply sc (Some (snd (sc_domain sc)))),
                     (axis_name (pos_y (position s1)) @ ''1'', edge_position s2),
                     (axis_name (pos_y (position s1)) @ ''2'', edge_position s2)]
            \<and> tickPosition s1 False d =
                Inr [(''stroke-width'', Num (strokeWidth s)),
                     (axis_name (pos_x (position s1)) @ ''1'', scale_apply sc (Some d)),
                     (axis_name (pos_x (position s1)) @ ''2'', scale_apply sc (Some d)),
                     (axis_name (pos_y (position s1)) @ ''1'', edge_position s1),
                     (axis_name (pos_y (position s1)) @ ''2'', js_add (edge_position s1) (Num (- tickSize s)))]
            \<and> tickPosition s2 False d =
                Inr [(''stroke-width'', Num (strokeWidth s)),
                     (axis_name (pos_x (position s1)) @ ''1'', scale_apply sc (Some d)),
                     (axis_name (pos_x (position s1)) @ ''2'', scale_apply sc (Some d)),
                     (axis_name (pos_y (position s1)) @ ''1'', edge_position s2),
                     (axis_name (pos_y (position s1)) @ ''2'', js_add (edge_position s2) (Num (tickSize s)))]
            \<and> tickPosition (s1\<lparr>lastScale := ls\<rparr>) True d =
                Inr [(''stroke-width'', Num (strokeWidth s)),
                     (axis_name (pos_x (position s1)) @ ''1'',
                        scale_apply (case ls of Some l' \<Rightarrow> l' | None \<Rightarrow> sc) (Some d)),
                     (axis_name (pos_x (position s1)) @ ''2'',
                        scale_apply (case ls of Some l' \<Rightarrow> l' | None \<Rightarrow> sc) (Some d)),
                     (axis_name (pos_y (position s1)) @ ''1'', edge_position s1),
                     (axis_name (pos_y (position s1)) @ ''2'', edge_position s1)]
            \<and> tickPosition (s2\<lparr>lastScale := ls\<rparr>) True d =
                Inr [(''stroke-width'', Num (strokeWidth s)),
                     (axis_name (pos_x (position s1)) @ ''1'',
                        scale_apply (case ls of Some l' \<Rightarrow> l' | None \<Rightarrow> sc) (Some d)),
                     (axis_name (pos_x (position s1)) @ ''2'',
                        scale_apply (case ls of Some l' \<Rightarrow> l' | None \<Rightarrow> sc) (Some d)),
                     (axis_name (pos_y (position s1)) @ ''1'', edge_position s2),
                     (axis_name (pos_y (position s1)) @ ''2'', edge_position s2)]
            \<and> clipPosition s1 =
                Inr [(axis_name (pos_x (position s1)),
                        js_sub (scale_apply sc (Some (fst (sc_domain sc)))) (Num (strokeWidth s))),
                     (axis_name (pos_y (position s1)), js_sub (edge_position s1) (Num (tickSize s))),
                     (dim_name (pos_width (position s1)),
                        js_add (js_sub (scale_apply sc (Some (snd (sc_domain sc))))
                                       (scale_apply sc (Some (fst (sc_domain sc)))))
                               (Num (strokeWidth s * 2))),
                     (dim_name (pos_height (position s1)), Num (tickSize s + strokeWidth s))]
            \<and> clipPosition s2 =
                Inr [(axis_name (pos_x (position s1)),
                        js_sub (scale_apply sc (Some (fst (sc_domain sc)))) (Num (strokeWidth s))),
                     (axis_name (pos_y (position s1)), edge_position s2),
                     (dim_name (pos_width (position s1)),
                        js_add (js_sub (scale_apply sc (Some (snd (sc_domain sc))))
                                       (scale_apply sc (Some (fst (sc_domain sc)))))
                               (Num (strokeWidth s * 2))),
                     (dim_name (pos_height (position s1)), Num (tickSize s + strokeWidth s))])
       \<and> (\<exists>l b1 b2. layout_pass e (orient_set v1 s) = Inr l
            \<and> labelBox s1 l = Inr b1 \<and> labelBox s2 l = Inr b2
            \<and> tb_height b1 = tb_height b2 \<and> tb_width b1 = tb_width b2
            \<and> (v1 = ''top'' \<longrightarrow>
                  tb_x b1 = tb_x b2
                \<and> tb_y b1 = map (\<lambda>d. b_y (outerBounds s1)) (l_ticks l)
                \<and> tb_y b2 = map (\<lambda>d. js_add (js_add (b_y (outerBounds s1)) (Num (tickSize s)))
                                              (Num (padding s))) (l_ticks l)
                \<and> (tb_textAnchor b1, tb_verticalAlign b1) = (''middle'', ''bottom'')
                \<and> (tb_textAnchor b2, tb_verticalAlign b2) = (''middle'', ''top''))
            \<and> (v1 = ''left'' \<longrightarrow>
                  tb_y b1 = tb_y b2
                \<and> tb_x b1 = map (\<lambda>(i, d). js_sub (b_x (outerBounds s1))
                                                   (Num (fontSize (textBoxConfig s) d i / 2)))
                                 (enumerate 0 (l_ticks l))
                \<and> tb_x b2 = map (\<lambda>(i, d). js_add (js_add (b_x (outerBounds s1)) (Num (tickSize s)))
                                                   (Num (padding s)))
                                 (enumerate 0 (l_ticks l))
                \<and> (tb_textAnchor b1, tb_verticalAlign b1) = (''end'', ''middle'')
                \<and> (tb_textAnchor b2, tb_verticalAlign b2) = (''start'', ''middle'')))"
proof -
  from v have h: "(v1 = ''top'' \<or> v1 = ''bottom'') = (v2 = ''top'' \<or> v2 = ''bottom'')"
    by auto
  from v have v1: "v1 = ''top'' \<or> v1 = ''left''" and v2: "v2 \<noteq> ''top''" "v2 \<noteq> ''left''"
    by auto
  note sw = orient_set_swap [OF h, of s]
  have lay: "layout_pass e (orient_set v1 s) = layout_pass e (orient_set v2 s)"
    by (simp add: sw layout_pass_frame)
  from render_Inr [OF r1] obtain l where
    l: "layout_pass e (orient_set v1 s) = Inr l"
    and s1: "s1 = (orient_set v1 s)\<lparr>select := (if select (orient_set v1 s) = None then Some ''svg''
                                                else select (orient_set v1 s)),
               d3Scale := Some (l_scale l), outerBounds := l_bounds l,
               lastScale := Some (l_scale l)\<rparr>"
    by blast
  from render_Inr [OF r2] lay l have
    s2: "s2 = (orient_set v2 s)\<lparr>select := (if select (orient_set v2 s) = None then Some ''svg''
                                                else select (orient_set v2 s)),
               d3Scale := Some (l_scale l), outerBounds := l_bounds l,
               lastScale := Some (l_scale l)\<rparr>"
    by auto
  have eq: "s2 = s1\<lparr>orient := v2\<rparr>"
    by (simp add: s1 s2 sw)
  have o1: "orient s1 = v1" and ts: "tickSize s1 = tickSize s" and sw1: "strokeWidth s1 = strokeWidth s"
    by (simp_all add: s1 orient_set_def Let_def)
  have e1: "edge_position s1 = js_add (get_axis (outerBounds s1) (pos_y (position s1)))
                                   (get_dim (outerBounds s1) (pos_height (position s1)))"
    using v1 by (auto simp: edge_position_def o1)
  have e2: "edge_position s2 = get_axis (outerBounds s1) (pos_y (position s1))"
    using v2 by (simp add: edge_position_def eq)
  have t1: "tick_offset s1 = - tickSize s"
    using v1 by (auto simp: tick_offset_def o1 ts)
  have t2: "tick_offset s2 = tickSize s"
    using v2 by (simp add: tick_offset_def eq ts)
  have d1: "d3Scale s1 = Some (l_scale l)" and d2: "d3Scale s2 = Some (l_scale l)"
    by (simp_all add: s1 eq)
  have b1: "barPosition s1 =
                Inr [(axis_name (pos_x (position s1)) @ ''1'', scale_apply (l_scale l) (Some (fst (sc_domain (l_scale l))))),
                     (axis_name (pos_x (position s1)) @ ''2'', scale_apply (l_scale l) (Some (snd (sc_domain (l_scale l))))),
                     (axis_name (pos_y (position s1)) @ ''1'', edge_position s1),
                     (axis_name (pos_y (position s1)) @ ''2'', edge_position s1)]"
    by (simp add: barPosition_def d1)
  have b2: "barPosition s2 =
                Inr [(axis_name (pos_x (position s1)) @ ''1'', scale_apply (l_scale l) (Some (fst (sc_domain (l_scale l))))),
                     (axis_name (pos_x (position s1)) @ ''2'', scale_apply (l_scale l) (Some (snd (sc_domain (l_scale l))))),
                     (axis_name (pos_y (position s1)) @ ''1'', edge_position s2),
                     (axis_name (pos_y (position s1)) @ ''2'', edge_position s2)]"
    by (simp add: barPosition_def d2) (simp add: eq)
  have k1: "tickPosition s1 False d =
                Inr [(''stroke-width'', Num (strokeWidth s)),
                     (axis_name (pos_x (position s1)) @ ''1'', scale_apply (l_scale l) (Some d)),
                     (axis_name (pos_x (position s1)) @ ''2'', scale_apply (l_scale l) (Some d)),
                     (axis_name (pos_y (position s1)) @ ''1'', edge_position s1),
                     (axis_name (pos_y (position s1)) @ ''2'', js_add (edge_position s1) (Num (- tickSize s)))]"
    by (simp add: tickPosition_def d1 t1 sw1)
  have k2: "tickPosition s2 False d =
                Inr [(''stroke-width'', Num (strokeWidth s)),
                     (axis_name (pos_x (position s1)) @ ''1'', scale_apply (l_scale l) (Some d)),
                     (axis_name (pos_x (position s1)) @ ''2'', scale_apply (l_scale l) (Some d)),
                     (axis_name (pos_y (position s1)) @ ''1'', edge_position s2),
                     (axis_name (pos_y (position s1)) @ ''2'', js_add (edge_position s2) (Num (tickSize s)))]"
    by (simp add: tickPosition_def d2 t2) (simp add: eq sw1)
  have n1: "tickPosition (s1\<lparr>lastScale := ls\<rparr>) True d =
                Inr [(''stroke-width'', Num (strokeWidth s)),
                     (axis_name (pos_x (position s1)) @ ''1'',
                        scale_apply (case ls of Some l' \<Rightarrow> l' | None \<Rightarrow> l_scale l) (Some d)),
                     (axis_name (pos_x (position s1)) @ ''2'',
                        scale_apply (case ls of Some l' \<Rightarrow> l' | None \<Rightarrow> l_scale l) (Some d)),
                     (axis_name (pos_y (position s1)) @ ''1'', edge_position s1),
                     (axis_name (pos_y (position s1)) @ ''2'', edge_position s1)]"
    by (cases ls) (simp_all add: tickPosition_def edge_position_def d1 sw1)
  have n2: "tickPosition (s2\<lparr>lastScale := ls\<rparr>) True d =
                Inr [(''stroke-width'', Num (strokeWidth s)),
                     (axis_name (pos_x (position s1)) @ ''1'',
                        scale_apply (case ls of Some l' \<Rightarrow> l' | None \<Rightarrow> l_scale l) (Some d)),
                     (axis_name (pos_x (position s1)) @ ''2'',
                        scale_apply (case ls of Some l' \<Rightarrow> l' | None \<Rightarrow> l_scale l) (Some d)),
                     (axis_name (pos_y (position s1)) @ ''1'', edge_position s2),
                     (axis_name (pos_y (position s1)) @ ''2'', edge_position s2)]"
    by (cases ls) (simp_all add: eq tickPosition_def edge_position_def d1 sw1)
  have pd: "padding s1 = padding s" and tc: "textBoxConfig s1 = textBoxConfig s"
    by (simp_all add: s1 orient_set_def Let_def)
  have c1: "clipPosition s1 =
                Inr [(axis_name (pos_x (position s1)),
                        js_sub (scale_apply (l_scale l) (Some (fst (sc_domain (l_scale l))))) (Num (strokeWidth s))),
                     (axis_name (pos_y (position s1)), js_sub (edge_position s1) (Num (tickSize s))),
                     (dim_name (pos_width (position s1)),
                        js_add (js_sub (scale_apply (l_scale l) (Some (snd (sc_domain (l_scale l)))))
                                       (scale_apply (l_scale l) (Some (fst (sc_domain (l_scale l))))))
                               (Num (strokeWidth s * 2))),
                     (dim_name (pos_height (position s1)), Num (tickSize s + strokeWidth s))]"
    using v1 by (auto simp: clipPosition_def Let_def d1 e1 o1 ts sw1)
  have c2: "clipPosition s2 =
                Inr [(axis_name (pos_x (position s1)),
                        js_sub (scale_apply (l_scale l) (Some (fst (sc_domain (l_scale l))))) (Num (strokeWidth s))),
                     (axis_name (pos_y (position s1)), edge_position s2),
                     (dim_name (pos_width (position s1)),
                        js_add (js_sub (scale_apply (l_scale l) (Some (snd (sc_domain (l_scale l)))))
                                       (scale_apply (l_scale l) (Some (fst (sc_domain (l_scale l))))))
                               (Num (strokeWidth s * 2))),
                     (dim_name (pos_height (position s1)), Num (tickSize s + strokeWidth s))]"
    using v2 by (simp add: clipPosition_def Let_def d2 e2) (simp add: eq ts sw1)
  define b1 where "b1 = projr (labelBox s1 l)"
  define b2 where "b2 = projr (labelBox (s1\<lparr>orient := v2\<rparr>) l)"
  have lb1: "labelBox s1 l = Inr b1"
    by (simp add: b1_def labelBox_def Let_def d1)
  have lb2: "labelBox s2 l = Inr b2"
    by (simp add: b2_def eq labelBox_def Let_def d1)
  have hw: "tb_height b1 = tb_height b2 \<and> tb_width b1 = tb_width b2"
    by (simp add: b1_def b2_def labelBox_def Let_def d1)
  have top: "tb_x b1 = tb_x b2
           \<and> tb_y b1 = map (\<lambda>d. b_y (outerBounds s1)) (l_ticks l)
           \<and> tb_y b2 = map (\<lambda>d. js_add (js_add (b_y (outerBounds s1)) (Num (tickSize s)))
                                         (Num (padding s))) (l_ticks l)
           \<and> (tb_textAnchor b1, tb_verticalAlign b1) = (''middle'', ''bottom'')
           \<and> (tb_textAnchor b2, tb_verticalAlign b2) = (''middle'', ''top'')"
    if "v1 = ''top''"
  proof -
    from that v have "v2 = ''bottom''" by auto
    with that show ?thesis
      by (simp add: b1_def b2_def labelBox_def Let_def d1 o1 ts pd)
  qed
  have left: "tb_y b1 = tb_y b2
            \<and> tb_x b1 = map (\<lambda>(i, d). js_sub (b_x (outerBounds s1))
                                               (Num (fontSize (textBoxConfig s) d i / 2)))
                             (enumerate 0 (l_ticks l))
            \<and> tb_x b2 = map (\<lambda>(i, d). js_add (js_add (b_x (outerBounds s1)) (Num (tickSize s)))
                                               (Num (padding s)))
                             (enumerate 0 (l_ticks l))
            \<and> (tb_textAnchor b1, tb_verticalAlign b1) = (''end'', ''middle'')
            \<and> (tb_textAnchor b2, tb_verticalAlign b2) = (''start'', ''middle'')"
    if "v1 = ''left''"
  proof -
    from that v have "v2 = ''right''" by auto
    with that show ?thesis
      by (simp add: b1_def b2_def labelBox_def Let_def d1 o1 ts pd tc)
  qed
  have geo: "\<exists>sc. d3Scale s1 = Some sc \<and> d3Scale s2 = Some sc
            \<and> barPosition s1 =
                Inr [(axis_name (pos_x (position s1)) @ ''1'', scale_apply sc (Some (fst (sc_domain sc)))),
                     (axis_name (pos_x (position s1)) @ ''2'', scale_apply sc (Some (snd (sc_domain sc)))),
                     (axis_name (pos_y (position s1)) @ ''1'', edge_position s1),
                     (axis_name (pos_y (position s1)) @ ''2'', edge_position s1)]
            \<and> barPosition s2 =
                Inr [(axis_name (pos_x (position s1)) @ ''1'', scale_apply sc (Some (fst (sc_domain sc)))),
                     (axis_name (pos_x (position s1)) @ ''2'', scale_apply sc (Some (snd (sc_domain sc)))),
                     (axis_name (pos_y (position s1)) @ ''1'', edge_position s2),
                     (axis_name (pos_y (position s1)) @ ''2'', edge_position s2)]
            \<and> tickPosition s1 False d =
                Inr [(''stroke-width'', Num (strokeWidth s)),
                     (axis_name (pos_x (position s1)) @ ''1'', scale_apply sc (Some d)),
                     (axis_name (pos_x (position s1)) @ ''2'', scale_apply sc (Some d)),
                     (axis_name (pos_y (position s1)) @ ''1'', edge_position s1),
                     (axis_name (pos_y (position s1)) @ ''2'', js_add (edge_position s1) (Num (- tickSize s)))]
            \<and> tickPosition s2 False d =
                Inr [(''stroke-width'', Num (strokeWidth s)),
                     (axis_name (pos_x (position s1)) @ ''1'', scale_apply sc (Some d)),
                     (axis_name (pos_x (position s1)) @ ''2'', scale_apply sc (Some d)),
                     (axis_name (pos_y (position s1)) @ ''1'', edge_position s2),
                     (axis_name (pos_y (position s1)) @ ''2'', js_add (edge_position s2) (Num (tickSize s)))]
            \<and> tickPosition (s1\<lparr>lastScale := ls\<rparr>) True d =
                Inr [(''stroke-width'', Num (strokeWidth s)),
                     (axis_name (pos_x (position s1)) @ ''1'',
                        scale_apply (case ls of Some l' \<Rightarrow> l' | None \<Rightarrow> sc) (Some d)),
                     (axis_name (pos_x (position s1)) @ ''2'',
                        scale_apply (case ls of Some l' \<Rightarrow> l' | None \<Rightarrow> sc) (Some d)),
                     (axis_name (pos_y (position s1)) @ ''1'', edge_position s1),
                     (axis_name (pos_y (position s1)) @ ''2'', edge_position s1)]
            \<and> tickPosition (s2\<lparr>lastScale := ls\<rparr>) True d =
                Inr [(''stroke-width'', Num (strokeWidth s)),
                     (axis_name (pos_x (position s1)) @ ''1'',
                        scale_apply (case ls of Some l' \<Rightarrow> l' | None \<Rightarrow> sc) (Some d)),
                     (axis_name (pos_x (position s1)) @ ''2'',
                        scale_apply (case ls of Some l' \<Rightarrow> l' | None \<Rightarrow> sc) (Some d)),
                     (axis_name (pos_y (position s1)) @ ''1'', edge_position s2),
                     (axis_name (pos_y (position s1)) @ ''2'', edge_position s2)]
            \<and> clipPosition s1 =
                Inr [(axis_name (pos_x (position s1)),
                        js_sub (scale_apply sc (Some (fst (sc_domain sc)))) (Num (strokeWidth s))),
                     (axis_name (pos_y (position s1)), js_sub (edge_position s1) (Num (tickSize s))),
                     (dim_name (pos_width (position s1)),
                        js_add (js_sub (scale_apply sc (Some (snd (sc_domain sc))))
                                       (scale_apply sc (Some (fst (sc_domain sc)))))
                               (Num (strokeWidth s * 2))),
                     (dim_name (pos_height (position s1)), Num (tickSize s + strokeWidth s))]
            \<and> clipPosition s2 =
                Inr [(axis_name (pos_x (position s1)),
                        js_sub (scale_apply sc (Some (fst (sc_domain sc)))) (Num (strokeWidth s))),
                     (axis_name (pos_y (position s1)), edge_position s2),
                     (dim_name (pos_width (position s1)),
                        js_add (js_sub (scale_apply sc (Some (snd (sc_domain sc))))
                                       (scale_apply sc (Some (fst (sc_domain sc)))))
                               (Num (strokeWidth s * 2))),
                     (dim_name (pos_height (position s1)), Num (tickSize s + strokeWidth s))]"
    using d1 d2 b1 b2 k1 k2 n1 n2 c1 c2 by blast
  have lab: "\<exists>l b1 b2. layout_pass e (orient_set v1 s) = Inr l
            \<and> labelBox s1 l = Inr b1 \<and> labelBox s2 l = Inr b2
            \<and> tb_height b1 = tb_height b2 \<and> tb_width b1 = tb_width b2
            \<and> (v1 = ''top'' \<longrightarrow>
                  tb_x b1 = tb_x b2
                \<and> tb_y b1 = map (\<lambda>d. b_y (outerBounds s1)) (l_ticks l)
                \<and> tb_y b2 = map (\<lambda>d. js_add (js_add (b_y (outerBounds s1)) (Num (tickSize s)))
                                              (Num (padding s))) (l_ticks l)
                \<and> (tb_textAnchor b1, tb_verticalAlign b1) = (''middle'', ''bottom'')
                \<and> (tb_textAnchor b2, tb_verticalAlign b2) = (''middle'', ''top''))
            \<and> (v1 = ''left'' \<longrightarrow>
                  tb_y b1 = tb_y b2
                \<and> tb_x b1 = map (\<lambda>(i, d). js_sub (b_x (outerBounds s1))
                                                   (Num (fontSize (textBoxConfig s) d i / 2)))
                                 (enumerate 0 (l_ticks l))
                \<and> tb_x b2 = map (\<lambda>(i, d). js_add (js_add (b_x (outerBounds s1)) (Num (tickSize s)))
                                                   (Num (padding s)))
                                 (enumerate 0 (l_ticks l))
                \<and> (tb_textAnchor b1, tb_verticalAlign b1) = (''end'', ''middle'')
                \<and> (tb_textAnchor b2, tb_verticalAlign b2) = (''start'', ''middle''))"
    using l lb1 lb2 hw top left by blast
  show ?thesis
    using lay eq e1 e2 t1 t2 geo lab by blast
qed

theorem orientation_swap_witness:
  "(\<exists>s1 s2. render example_env (orient_set ''top'' example_legend) = Inr s1
      \<and> render example_env (orient_set ''bottom'' example_legend) = Inr s2
      \<and> s2 = s1\<lparr>orient := ''bottom''\<rparr>
      \<and> outerBounds s1 = \<lparr>b_width = Num 378, b_height = Num 25, b_x = Num 11, b_y = Num (75 / 2)\<rparr>
      \<and> edge_position s1 = Num (125 / 2)
      \<and> edge_position s2 = Num (75 / 2)
      \<and> tick_offset s1 = - 5
      \<and> tick_offset s2 = 5
      \<and> (\<exists>b1 b2. labelBox s1 example_layout = Inr b1 \<and> labelBox s2 example_layout = Inr b2
            \<and> tb_y b1 = [Num (75 / 2), Num (75 / 2), Num (75 / 2)]
            \<and> tb_y b2 = [Num (95 / 2), Num (95 / 2), Num (95 / 2)]))"
proof -
  have r2: "render example_env (orient_set ''bottom'' example_legend) = Inr example_rendered"
    using ex_render ex_orient by simp
  note r1 = ex_render_top
  have v: "(''top'', ''bottom'') = (''top'', ''bottom'') \<or> (''top'', ''bottom'') = (''left'', ''right'')"
    by simp
  have ob: "outerBounds (example_rendered\<lparr>orient := ''top''\<rparr>)
              = \<lparr>b_width = Num 378, b_height = Num 25, b_x = Num 11, b_y = Num (75 / 2)\<rparr>"
    by (simp add: example_rendered_def example_layout_def)
  have ps: "position (example_rendered\<lparr>orient := ''top''\<rparr>)
              = \<lparr>pos_width = Width, pos_height = Height, pos_x = X, pos_y = Y\<rparr>"
    by (simp add: example_rendered_def ex_fields)
  have tk: "l_ticks example_layout = [0, 5, 10]"
    by (simp add: example_layout_def)
  note sw = orientation_swap [OF v r1 r2]
  from sw have a: "example_rendered = example_rendered\<lparr>orient := ''top'', orient := ''bottom''\<rparr>
      \<and> edge_position (example_rendered\<lparr>orient := ''top''\<rparr>) = Num (125 / 2)
      \<and> edge_position example_rendered = Num (75 / 2)
      \<and> tick_offset (example_rendered\<lparr>orient := ''top''\<rparr>) = - 5
      \<and> tick_offset example_rendered = 5"
    by (simp add: ob ps ex_fields)
  from sw obtain l b1 b2 where
        l: "layout_pass example_env (orient_set ''top'' example_legend) = Inr l"
    and b: "labelBox (example_rendered\<lparr>orient := ''top''\<rparr>) l = Inr b1"
           "labelBox example_rendered l = Inr b2"
    and y: "''top'' = ''top'' \<longrightarrow>
              tb_x b1 = tb_x b2
            \<and> tb_y b1 = map (\<lambda>d. b_y (outerBounds (example_rendered\<lparr>orient := ''top''\<rparr>))) (l_ticks l)
            \<and> tb_y b2 = map (\<lambda>d. js_add (js_add (b_y (outerBounds (example_rendered\<lparr>orient := ''top''\<rparr>)))
                                                  (Num (tickSize example_legend)))
                                          (Num (padding example_legend))) (l_ticks l)
            \<and> (tb_textAnchor b1, tb_verticalAlign b1) = (''middle'', ''bottom'')
            \<and> (tb_textAnchor b2, tb_verticalAlign b2) = (''middle'', ''top'')"
    by blast
  from l have le: "l = example_layout"
    by (simp add: ex_layout_top)
  from y have "tb_y b1 = [Num (75 / 2), Num (75 / 2), Num (75 / 2)]
             \<and> tb_y b2 = [Num (95 / 2), Num (95 / 2), Num (95 / 2)]"
    by (simp add: le tk ob ex_fields)
  with b le have c: "\<exists>b1 b2. labelBox (example_rendered\<lparr>orient := ''top''\<rparr>) example_layout = Inr b1
            \<and> labelBox example_rendered example_layout = Inr b2
            \<and> tb_y b1 = [Num (75 / 2), Num (75 / 2), Num (75 / 2)]
            \<and> tb_y b2 = [Num (95 / 2), Num (95 / 2), Num (95 / 2)]"
    by blast
  from r1 r2 ob a c show ?thesis
    by (intro exI [of _ "example_rendered\<lparr>orient := ''top''\<rparr>"] exI [of _ example_rendered]) simp
qed

section \<open>C8: rendering twice\<close>

text \<open>
  C8. A second \<open>render\<close> of a rendered instance returns the same instance: the layout
  pass starts from the configured size again, so its result, the final range and the
  outer bounds are those of the first.
\<close>

theorem render_idempotent:
  assumes "render e s = Inr s1"
  shows "render e s1 = Inr s1
       \<and> (\<exists>l. layout_pass e s = Inr l \<and> layout_pass e s1 = Inr l
              \<and> d3Scale s1 = Some (l_scale l) \<and> outerBounds s1 = l_bounds l)"
proof -
  from render_Inr [OF assms] obtain l where
    l: "layout_pass e s = Inr l"
    and s1: "s1 = s\<lparr>select := (if select s = None then Some ''svg'' else select s),
               d3Scale := Some (l_scale l), outerBounds := l_bounds l,
               lastScale := Some (l_scale l)\<rparr>"
    by blast
  have l1: "layout_pass e s1 = Inr l"
    by (simp add: s1 layout_pass_frame l)
  have sel: "(select s1 = None) = False"
    by (simp add: s1)
  have "render e s1 = Inr (s1\<lparr>d3Scale := Some (l_scale l), outerBounds := l_bounds l,
                              lastScale := Some (l_scale l)\<rparr>)"
    by (simp add: render_def sel l1)
  also have "s1\<lparr>d3Scale := Some (l_scale l), outerBounds := l_bounds l,
                lastScale := Some (l_scale l)\<rparr> = s1"
    by (simp add: s1)
  finally have "render e s1 = Inr s1" .
  with l l1 show ?thesis
    by (simp add: s1)
qed

theorem render_idempotent_witness:
  "render example_env example_legend = Inr example_rendered
   \<and> render example_env example_rendered = Inr example_rendered
   \<and> map_option sc_range (d3Scale example_rendered) = Some (Num 11, Num 389)"
proof -
  from render_idempotent [OF ex_render]
  have "render example_env example_rendered = Inr example_rendered"
    by simp
  moreover have "map_option sc_range (d3Scale example_rendered) = Some (Num 11, Num 389)"
    by (simp add: example_rendered_def example_layout_def)
  ultimately show ?thesis
    using ex_render by simp
qed

section \<open>C9: an unknown scale kind\<close>




section \<open>C10: config\<close>




end
